theory Spec2Isabelle
  imports Main "HOL-Library.Word" "HOL-Library.AList"
begin

unbundle bit_operations_syntax

section \<open>The DS5 camera layer (src/src/ds5.cpp)\<close>

text \<open>
  A shallow embedding of \<^verbatim>\<open>src/src/ds5.cpp\<close>. C++ exceptions are values of the
  type \<open>error\<close> and a function that can throw returns \<open>error + 'a\<close> (\<open>Inl\<close> the
  exception). C++ \<^verbatim>\<open>int\<close> is a 32-bit word (read as two's complement by
  \<open>sint\<close>), \<^verbatim>\<open>uint8_t\<close> and \<^verbatim>\<open>uint16_t\<close> are 8- and 16-bit words. What the file
  takes from headers and files of the repository that are not among the sources
  (\<^verbatim>\<open>ds5-private.h\<close>, \<^verbatim>\<open>types.h\<close>, \<^verbatim>\<open>hw-monitor.h\<close>, ...) is either a parameter,
  collected in the record \<open>ds_private\<close>, or modelled from the specification where a
  definition says so. Device enumeration (lines 85-138) is not modelled.
\<close>

subsection \<open>Exceptions\<close>

datatype error =
    runtime_error string
  | invalid_value_exception string
  | not_implemented_exception string
  | io_error string

type_synonym byte = "8 word"
type_synonym int32 = "32 word"

subsection \<open>Decimal printing (operator \<^verbatim>\<open><<\<close> of \<^verbatim>\<open>to_string()\<close> on unsigned numbers)\<close>

definition digit_char :: "nat \<Rightarrow> char" where
  "digit_char d = ''0123456789'' ! d"

function string_of_nat :: "nat \<Rightarrow> string" where
  "string_of_nat n =
     (if n < 10 then [digit_char n] else string_of_nat (n div 10) @ [digit_char (n mod 10)])"
  by pat_completeness auto
termination
  by (relation "measure (\<lambda>n. n)") auto

declare string_of_nat.simps [simp del]

subsection \<open>Single-precision floats\<close>

text \<open>
  C++ \<^verbatim>\<open>float\<close> is IEEE 754 binary32. A finite value is \<open>Finite s m e\<close>, standing for
  \<open>(-1)\<^sup>s \<times> m \<times> 2\<^sup>e\<close> with a significand \<open>m < 2\<^sup>2\<^sup>4\<close> and an exponent
  \<open>-149 \<le> e \<le> 104\<close>; NaN payloads are not distinguished. Only negation and
  multiplication occur in the file. Multiplication rounds the exact product to nearest,
  ties to even (the default rounding mode): \<open>round_magnitude m e\<close> is the rounded
  magnitude of \<open>m \<times> 2\<^sup>e\<close>, \<open>None\<close> when it overflows to infinity.
\<close>

datatype float = Finite bool nat int | Infinity bool | NaN

fun bitlen :: "nat \<Rightarrow> nat" where
  "bitlen n = (if n = 0 then 0 else Suc (bitlen (n div 2)))"

declare bitlen.simps [simp del]

definition round_magnitude :: "nat \<Rightarrow> int \<Rightarrow> (nat \<times> int) option" where
  "round_magnitude m e =
     (if m = 0 then Some (0, - 149)
      else
        let sh = max (int (bitlen m) - 24) (- 149 - e) in
        if sh \<le> 0 then
          (if e + sh > 104 then None else Some (m * 2 ^ nat (- sh), e + sh))
        else
          let q = m div 2 ^ nat sh;
              r = m mod 2 ^ nat sh;
              h = 2 ^ (nat sh - 1);
              q' = (if r > h \<or> (r = h \<and> odd q) then q + 1 else q);
              m' = (if q' = 2 ^ 24 then 2 ^ 23 else q');
              e' = (if q' = 2 ^ 24 then e + sh + 1 else e + sh)
          in if e' > 104 then None else Some (m', e'))"

definition round_binary32 :: "bool \<Rightarrow> nat \<Rightarrow> int \<Rightarrow> float" where
  "round_binary32 s m e =
     (case round_magnitude m e of None \<Rightarrow> Infinity s | Some (m', e') \<Rightarrow> Finite s m' e')"

fun fneg :: "float \<Rightarrow> float" where
  "fneg (Finite s m e) = Finite (\<not> s) m e"
| "fneg (Infinity s) = Infinity (\<not> s)"
| "fneg NaN = NaN"

fun fmul :: "float \<Rightarrow> float \<Rightarrow> float" where
  "fmul NaN y = NaN"
| "fmul x NaN = NaN"
| "fmul (Infinity s) (Infinity t) = Infinity (s \<noteq> t)"
| "fmul (Infinity s) (Finite t n f) = (if n = 0 then NaN else Infinity (s \<noteq> t))"
| "fmul (Finite s m e) (Infinity t) = (if m = 0 then NaN else Infinity (s \<noteq> t))"
| "fmul (Finite s m e) (Finite t n f) = round_binary32 (s \<noteq> t) (m * n) (e + f)"

text \<open>
  Addition, which the file itself does not use, is what the composition of poses adds
  with: the exact sum, rounded the same way; an exact zero sum is \<open>+0\<close> unless both
  terms are \<open>-0\<close>.
\<close>

definition signed_significand :: "bool \<Rightarrow> nat \<Rightarrow> int" where
  "signed_significand s m = (if s then - int m else int m)"

fun fadd :: "float \<Rightarrow> float \<Rightarrow> float" where
  "fadd NaN y = NaN"
| "fadd x NaN = NaN"
| "fadd (Infinity s) (Infinity t) = (if s = t then Infinity s else NaN)"
| "fadd (Infinity s) (Finite t n f) = Infinity s"
| "fadd (Finite s m e) (Infinity t) = Infinity t"
| "fadd (Finite s m e) (Finite t n f) =
     (let e0 = min e f;
          v = signed_significand s m * 2 ^ nat (e - e0) + signed_significand t n * 2 ^ nat (f - e0)
      in if v = 0 then Finite (s \<and> t) 0 (- 149) else round_binary32 (v < 0) (nat \<bar>v\<bar>) e0)"

text \<open>The literals \<^verbatim>\<open>0\<close>, \<^verbatim>\<open>1\<close> and \<^verbatim>\<open>0.001f\<close> (the float nearest to 1/1000).\<close>

definition f_0 :: float where
  "f_0 = Finite False 0 (- 149)"

definition f_1 :: float where
  "f_1 = Finite False 8388608 (- 23)"

definition f_0_001 :: float where
  "f_0_001 = Finite False 8589935 (- 33)"

subsection \<open>Geometry\<close>

text \<open>
  \<^verbatim>\<open>float3\<close>, \<^verbatim>\<open>float3x3\<close> (three \<^verbatim>\<open>float3\<close>: \<open>x\<close>, \<open>y\<close>, \<open>z\<close>) and \<^verbatim>\<open>pose\<close>, as the
  brace initialisers of lines 208, 292 and 721 fill them; \<^verbatim>\<open>rs2_extrinsics\<close> holds
  arrays of 9 and 3 floats (line 794).
\<close>

record float3 =
  f3_x :: float
  f3_y :: float
  f3_z :: float

record float3x3 =
  col_x :: float3
  col_y :: float3
  col_z :: float3

record pose =
  orientation :: float3x3
  position :: float3

record rs2_extrinsics =
  rotation :: "float list"
  translation :: "float list"

text \<open>\<^verbatim>\<open>ds::extrinsics\<close>, the type of \<^verbatim>\<open>imu_to_fisheye\<close> (lines 203-206).\<close>

record extrinsics =
  ex_rotation :: float3x3
  ex_translation :: float3

definition float3_of :: "float \<Rightarrow> float \<Rightarrow> float \<Rightarrow> float3" where
  "float3_of a b c = \<lparr>f3_x = a, f3_y = b, f3_z = c\<rparr>"

text \<open>\<^verbatim>\<open>trans[k]\<close> on a \<^verbatim>\<open>float3\<close>.\<close>

definition float3_at :: "float3 \<Rightarrow> nat \<Rightarrow> float" where
  "float3_at v k = (if k = 0 then f3_x v else if k = 1 then f3_y v else f3_z v)"

text \<open>The pose \<^verbatim>\<open>{{ { 1,0,0 },{ 0,1,0 },{ 0,0,1 } },{ 0,0,0 }}\<close> of lines 292, 340, 721.\<close>

definition identity_pose :: pose where
  "identity_pose =
     \<lparr>orientation = \<lparr>col_x = float3_of f_1 f_0 f_0, col_y = float3_of f_0 f_1 f_0,
                      col_z = float3_of f_0 f_0 f_1\<rparr>,
      position = float3_of f_0 f_0 f_0\<rparr>"

subsection \<open>The command channel (\<^verbatim>\<open>hw_monitor\<close>)\<close>

text \<open>
  The opcodes \<^verbatim>\<open>ds::fw_cmd\<close> that the file uses. A \<open>command\<close> is built by
  \<^verbatim>\<open>command(opcode, p1 = 0, p2 = 0, p3 = 0, p4 = 0)\<close>.
\<close>

datatype fw_cmd = GLD | GVD | GETINTCAL | HWRST | SETAEROI | GETAEROI | UAMG | MMER | GET_EXTRINSICS

record command =
  cmd :: fw_cmd
  param1 :: int32
  param2 :: int32
  param3 :: int32
  param4 :: int32

definition command0 :: "fw_cmd \<Rightarrow> command" where
  "command0 c = \<lparr>cmd = c, param1 = 0, param2 = 0, param3 = 0, param4 = 0\<rparr>"

definition command1 :: "fw_cmd \<Rightarrow> int32 \<Rightarrow> command" where
  "command1 c p1 = \<lparr>cmd = c, param1 = p1, param2 = 0, param3 = 0, param4 = 0\<rparr>"

definition command2 :: "fw_cmd \<Rightarrow> int32 \<Rightarrow> int32 \<Rightarrow> command" where
  "command2 c p1 p2 = \<lparr>cmd = c, param1 = p1, param2 = p2, param3 = 0, param4 = 0\<rparr>"

text \<open>
  The hardware behind the channel is external. It is modelled as a deterministic
  responder: the reply to a command may depend on every command sent before it, and may
  be a failure. \<open>sent\<close> is the log of the commands issued so far, in order.
\<close>

record hw_monitor =
  respond :: "command list \<Rightarrow> command \<Rightarrow> error + byte list"
  sent :: "command list"

definition send :: "hw_monitor \<Rightarrow> command \<Rightarrow> (error + byte list) \<times> hw_monitor" where
  "send hwm c = (respond hwm (sent hwm) c, hwm\<lparr>sent := sent hwm @ [c]\<rparr>)"

text \<open>\<^verbatim>\<open>hardware_reset\<close> (lines 156-160).\<close>

definition hardware_reset :: "hw_monitor \<Rightarrow> (error + unit) \<times> hw_monitor" where
  "hardware_reset hwm =
     (case send hwm (command0 HWRST) of
        (Inl e, hwm') \<Rightarrow> (Inl e, hwm')
      | (Inr res, hwm') \<Rightarrow> (Inr (), hwm'))"

subsection \<open>Region of interest (lines 22-83)\<close>

record region_of_interest =
  min_x :: int32
  min_y :: int32
  max_x :: int32
  max_y :: int32

text \<open>\<^verbatim>\<open>ds5_auto_exposure_roi_method::set\<close> (lines 27-35).\<close>

definition ds5_auto_exposure_roi_method_set ::
  "hw_monitor \<Rightarrow> region_of_interest \<Rightarrow> (error + unit) \<times> hw_monitor" where
  "ds5_auto_exposure_roi_method_set hwm roi =
     (let c = (command0 SETAEROI)
                \<lparr>param1 := min_y roi, param2 := max_y roi,
                 param3 := min_x roi, param4 := max_x roi\<rparr>
      in case send hwm c of
           (Inl e, hwm') \<Rightarrow> (Inl e, hwm')
         | (Inr res, hwm') \<Rightarrow> (Inr (), hwm'))"

text \<open>
  \<^verbatim>\<open>reinterpret_cast<uint16_t*>(res.data())[i]\<close>: the 16-bit word stored in bytes
  \<open>2 i\<close> and \<open>2 i + 1\<close> of the buffer, on a little-endian host (the low byte first).
\<close>

definition words :: "byte list \<Rightarrow> nat \<Rightarrow> 16 word" where
  "words res i = word_cat (res ! (2 * i + 1)) (res ! (2 * i))"

text \<open>
  \<^verbatim>\<open>ds5_auto_exposure_roi_method::get\<close> (lines 37-56). \<^verbatim>\<open>4 * sizeof(uint16_t)\<close> is 8;
  the assignment of a \<^verbatim>\<open>uint16_t\<close> to an \<^verbatim>\<open>int\<close> field extends with zeros.
\<close>

definition ds5_auto_exposure_roi_method_get ::
  "hw_monitor \<Rightarrow> (error + region_of_interest) \<times> hw_monitor" where
  "ds5_auto_exposure_roi_method_get hwm =
     (case send hwm (command0 GETAEROI) of
        (Inl e, hwm') \<Rightarrow> (Inl e, hwm')
      | (Inr res, hwm') \<Rightarrow>
          if length res < 4 * 2 then (Inl (runtime_error ''Invalid result size!''), hwm')
          else (Inr \<lparr>min_x = ucast (words res 2), min_y = ucast (words res 0),
                     max_x = ucast (words res 3), max_y = ucast (words res 1)\<rparr>, hwm'))"

subsection \<open>Options and the objects behind them\<close>

text \<open>
  The option identifiers that the file registers, the extension units and their
  controls, and the option objects that it constructs, one constructor per C++ class.
  \<open>uvc_xu_option w u c d\<close> is \<^verbatim>\<open>uvc_xu_option<uintw_t>(ep, u, c, d)\<close>. Option ranges
  and value maps (lines 391-407) are left out.
\<close>

datatype rs2_option =
    RS2_OPTION_BACKLIGHT_COMPENSATION
  | RS2_OPTION_BRIGHTNESS
  | RS2_OPTION_CONTRAST
  | RS2_OPTION_EXPOSURE
  | RS2_OPTION_GAIN
  | RS2_OPTION_GAMMA
  | RS2_OPTION_HUE
  | RS2_OPTION_SATURATION
  | RS2_OPTION_SHARPNESS
  | RS2_OPTION_WHITE_BALANCE
  | RS2_OPTION_ENABLE_AUTO_EXPOSURE
  | RS2_OPTION_ENABLE_AUTO_WHITE_BALANCE
  | RS2_OPTION_EMITTER_ENABLED
  | RS2_OPTION_LASER_POWER
  | RS2_OPTION_OUTPUT_TRIGGER_ENABLED
  | RS2_OPTION_ERROR_POLLING_ENABLED
  | RS2_OPTION_PROJECTOR_TEMPERATURE
  | RS2_OPTION_ASIC_TEMPERATURE
  | RS2_OPTION_DEPTH_UNITS
  | RS2_OPTION_AUTO_EXPOSURE_MODE
  | RS2_OPTION_AUTO_EXPOSURE_ANTIFLICKER_RATE
  | RS2_OPTION_MOTION_MODULE_TEMPERATURE
  | RS2_OPTION_ENABLE_MOTION_CORRECTION

datatype extension_unit = depth_xu | fisheye_xu

datatype xu_control =
    DS5_HWMONITOR
  | DS5_LASER_POWER
  | DS5_EXPOSURE
  | DS5_ENABLE_AUTO_EXPOSURE
  | DS5_ENABLE_AUTO_WHITE_BALANCE
  | DS5_EXT_TRIGGER
  | DS5_ERROR_REPORTING
  | FISHEYE_EXPOSURE

datatype option_object =
    uvc_pu_option rs2_option
  | uvc_xu_option nat extension_unit xu_control string
  | auto_disabling_control option_object option_object
  | emitter_option
  | polling_errors_disable
  | asic_and_projector_temperature_options rs2_option
  | depth_scale_option
  | const_value_option string float
  | enable_auto_exposure_option
  | auto_exposure_mode_option
  | auto_exposure_antiflicker_rate_option
  | motion_module_temperature_option
  | enable_motion_correction

text \<open>
  \<^verbatim>\<open>fisheye_auto_exposure_roi_method\<close> (lines 62-83). The auto-exposure mechanism is
  external; of it the model keeps the two options it was built from (line 386) and the
  metering windows handed to it by \<^verbatim>\<open>update_auto_exposure_roi\<close>, in order.
\<close>

record auto_exposure_mechanism =
  ae_gain_option :: option_object
  ae_exposure_option :: option_object
  ae_roi_updates :: "region_of_interest list"

definition update_auto_exposure_roi ::
  "auto_exposure_mechanism \<Rightarrow> region_of_interest \<Rightarrow> auto_exposure_mechanism" where
  "update_auto_exposure_roi ae roi = ae\<lparr>ae_roi_updates := ae_roi_updates ae @ [roi]\<rparr>"

record fisheye_auto_exposure_roi_method =
  m_auto_exposure :: auto_exposure_mechanism
  m_roi :: region_of_interest

text \<open>The constructor (lines 65-67); \<^verbatim>\<open>_roi{}\<close> (line 82) is value-initialised.\<close>

definition fisheye_auto_exposure_roi_method_new ::
  "auto_exposure_mechanism \<Rightarrow> fisheye_auto_exposure_roi_method" where
  "fisheye_auto_exposure_roi_method_new auto_exposure =
     \<lparr>m_auto_exposure = auto_exposure,
      m_roi = \<lparr>min_x = 0, min_y = 0, max_x = 0, max_y = 0\<rparr>\<rparr>"

definition fisheye_auto_exposure_roi_method_set ::
  "fisheye_auto_exposure_roi_method \<Rightarrow> region_of_interest \<Rightarrow> fisheye_auto_exposure_roi_method" where
  "fisheye_auto_exposure_roi_method_set this roi =
     (let this1 = this\<lparr>m_auto_exposure := update_auto_exposure_roi (m_auto_exposure this) roi\<rparr>
      in this1\<lparr>m_roi := roi\<rparr>)"

definition fisheye_auto_exposure_roi_method_get ::
  "fisheye_auto_exposure_roi_method \<Rightarrow> region_of_interest" where
  "fisheye_auto_exposure_roi_method_get this = m_roi this"

datatype region_of_interest_method =
    ds5_roi_method
  | fisheye_roi_method fisheye_auto_exposure_roi_method

subsection \<open>Notifications (lines 774-786)\<close>

text \<open>
  Modelled from the spec: the \<^verbatim>\<open>notification\<close> record of \<^verbatim>\<open>types.h\<close>, which is not
  among the sources; the spec gives it the four fields category, raw code, severity and
  message, and the brace initialisers of lines 777-785 fill them in this order. The
  enumerators are those of the public API header.
\<close>

datatype rs2_notification_category =
    RS2_NOTIFICATION_CATEGORY_FRAMES_TIMEOUT
  | RS2_NOTIFICATION_CATEGORY_FRAME_CORRUPTED
  | RS2_NOTIFICATION_CATEGORY_HARDWARE_ERROR
  | RS2_NOTIFICATION_CATEGORY_UNKNOWN_ERROR

datatype rs2_log_severity =
    RS2_LOG_SEVERITY_DEBUG
  | RS2_LOG_SEVERITY_INFO
  | RS2_LOG_SEVERITY_WARN
  | RS2_LOG_SEVERITY_ERROR
  | RS2_LOG_SEVERITY_FATAL
  | RS2_LOG_SEVERITY_NONE

record notification =
  category :: rs2_notification_category
  raw_code :: int32
  severity :: rs2_log_severity
  description :: string

text \<open>
  The enumerators of \<^verbatim>\<open>ds::ds5_notifications_types\<close> are declared in \<^verbatim>\<open>ds5-private.h\<close>,
  which is not among the sources: their values are parameters.
\<close>

record ds5_notifications_types =
  hot_laser_power_reduce :: int32
  hot_laser_disable :: int32
  flag_B_laser_disable :: int32

definition ds5_notification_decoder_decode :: "ds5_notifications_types \<Rightarrow> int32 \<Rightarrow> notification" where
  "ds5_notification_decoder_decode T v =
     (if v = 0 then
        \<lparr>category = RS2_NOTIFICATION_CATEGORY_HARDWARE_ERROR, raw_code = v,
         severity = RS2_LOG_SEVERITY_ERROR, description = ''Success''\<rparr>
      else if v = hot_laser_power_reduce T then
        \<lparr>category = RS2_NOTIFICATION_CATEGORY_HARDWARE_ERROR, raw_code = v,
         severity = RS2_LOG_SEVERITY_ERROR, description = ''Hot laser power reduce''\<rparr>
      else if v = hot_laser_disable T then
        \<lparr>category = RS2_NOTIFICATION_CATEGORY_HARDWARE_ERROR, raw_code = v,
         severity = RS2_LOG_SEVERITY_ERROR, description = ''Hot laser disable''\<rparr>
      else if v = flag_B_laser_disable T then
        \<lparr>category = RS2_NOTIFICATION_CATEGORY_HARDWARE_ERROR, raw_code = v,
         severity = RS2_LOG_SEVERITY_ERROR, description = ''Flag B laser disable''\<rparr>
      else
        \<lparr>category = RS2_NOTIFICATION_CATEGORY_HARDWARE_ERROR, raw_code = v,
         severity = RS2_LOG_SEVERITY_NONE, description = ''Unknown error!''\<rparr>)"

subsection \<open>Deferred, cached reads (\<^verbatim>\<open>lazy<T>\<close>)\<close>

text \<open>
  Modelled from the spec: the class template \<^verbatim>\<open>lazy<T>\<close> of \<^verbatim>\<open>types.h\<close>, which is not
  among the sources. The spec (sections 3 and 9) describes a memoizing thunk with the
  states unevaluated, evaluated (with the value) and failed (with the error): the first
  access runs the computation, and every later access returns the cached outcome and
  never runs it again. The computation acts on the command channel, here the state \<open>'s\<close>.
\<close>

datatype 'a lazy = Unevaluated | Evaluated 'a | Failed error

definition force ::
  "('s \<Rightarrow> (error + 'a) \<times> 's) \<Rightarrow> 'a lazy \<Rightarrow> 's \<Rightarrow> (error + 'a) \<times> 'a lazy \<times> 's" where
  "force compute l s =
     (case l of
        Evaluated v \<Rightarrow> (Inr v, l, s)
      | Failed e \<Rightarrow> (Inl e, l, s)
      | Unevaluated \<Rightarrow>
          (case compute s of
             (Inr v, s') \<Rightarrow> (Inr v, Evaluated v, s')
           | (Inl e, s') \<Rightarrow> (Inl e, Failed e, s')))"

subsection \<open>Streams, endpoints and the device object\<close>

datatype rs2_stream =
    RS2_STREAM_ANY
  | RS2_STREAM_DEPTH
  | RS2_STREAM_COLOR
  | RS2_STREAM_INFRARED
  | RS2_STREAM_INFRARED2
  | RS2_STREAM_FISHEYE
  | RS2_STREAM_GYRO
  | RS2_STREAM_ACCEL
  | RS2_STREAM_GPIO1
  | RS2_STREAM_GPIO2
  | RS2_STREAM_GPIO3
  | RS2_STREAM_GPIO4

text \<open>\<^verbatim>\<open>stream_profile\<close> (line 275), without its pixel format.\<close>

record stream_profile =
  sp_stream :: rs2_stream
  sp_width :: "32 word"
  sp_height :: "32 word"
  sp_fps :: "32 word"

text \<open>
  \<^verbatim>\<open>rs2_intrinsics\<close> and \<^verbatim>\<open>ds::imu_intrinsics\<close> are produced by helpers of other files and
  only passed on here; the model keeps the focal lengths and principal point of the
  first and the bias and scale vectors of the second.
\<close>

record rs2_intrinsics =
  in_width :: "32 word"
  in_height :: "32 word"
  in_ppx :: float
  in_ppy :: float
  in_fx :: float
  in_fy :: float

record imu_intrinsics =
  imu_bias :: float3
  imu_scale :: float3

text \<open>\<^verbatim>\<open>ds::imu_calibration_table\<close>: the three fields read in lines 449-451.\<close>

record imu_calibration_table =
  imu_to_fisheye :: extrinsics
  accel_intrinsics :: imu_intrinsics
  gyro_intrinsics :: imu_intrinsics

text \<open>\<^verbatim>\<open>ds::coefficients_table\<close>: the field read in lines 799 and 805.\<close>

record coefficients_table =
  baseline :: float

datatype calibration_table_id = coefficients_table_id | fisheye_calibration_id

datatype pixel_format =
    pf_z16 | pf_y8 | pf_yuyv | pf_uyvyl | pf_rgb888 | pf_y8i | pf_y12i | pf_raw8
  | pf_fe_raw8_unpatched_kernel | pf_yuy2 | pf_bayer16 | pf_accel_axes | pf_gyro_axes
  | pf_gpio_timestamp

datatype rs2_frame_metadata =
    RS2_FRAME_METADATA_FRAME_TIMESTAMP
  | RS2_FRAME_METADATA_FRAME_COUNTER
  | RS2_FRAME_METADATA_SENSOR_TIMESTAMP
  | RS2_FRAME_METADATA_WHITE_BALANCE
  | RS2_FRAME_METADATA_GAIN_LEVEL
  | RS2_FRAME_METADATA_ACTUAL_EXPOSURE
  | RS2_FRAME_METADATA_AUTO_EXPOSURE
  | RS2_FRAME_METADATA_HW_TYPE
  | RS2_FRAME_METADATA_SKU_ID
  | RS2_FRAME_METADATA_FORMAT
  | RS2_FRAME_METADATA_WIDTH
  | RS2_FRAME_METADATA_HEIGHT

text \<open>
  What \<^verbatim>\<open>set_pose\<close> is given: the constant identity pose (lines 292, 340, 721) or a
  deferred call of \<^verbatim>\<open>get_device_position\<close> on the fisheye or the motion-module index
  (lines 672, 707).
\<close>

datatype pose_source = pose_identity | pose_of_fisheye_device | pose_of_motion_module_device

datatype endpoint_kind = uvc_endpoint | hid_endpoint

text \<open>
  Modelled from the spec: the endpoint objects (\<^verbatim>\<open>uvc_endpoint\<close>, \<^verbatim>\<open>hid_endpoint\<close>) are
  declared in files that are not among the sources. The spec (section 6) gives their
  interface: \<^verbatim>\<open>register_option\<close>, \<^verbatim>\<open>register_pixel_format\<close>, \<^verbatim>\<open>register_metadata\<close>,
  \<^verbatim>\<open>set_roi_method\<close>, \<^verbatim>\<open>set_pose\<close>, \<^verbatim>\<open>register_xu\<close> and \<^verbatim>\<open>register_pu\<close>. An endpoint
  is the record of what has been registered on it: options by identifier (a later
  registration under the same identifier replaces the earlier one), pixel formats,
  metadata fields (their parsers are left out) and extension units in the order of
  registration, and the current region-of-interest method and pose, if set.
\<close>

record endpoint =
  ep_kind :: endpoint_kind
  ep_xus :: "extension_unit list"
  ep_pixel_formats :: "pixel_format list"
  ep_options :: "(rs2_option \<times> option_object) list"
  ep_metadata :: "rs2_frame_metadata list"
  ep_roi_method :: "region_of_interest_method option"
  ep_pose :: "pose_source option"
  ep_hid_profiles :: "(string \<times> stream_profile) list"

definition new_endpoint :: "endpoint_kind \<Rightarrow> endpoint" where
  "new_endpoint k =
     \<lparr>ep_kind = k, ep_xus = [], ep_pixel_formats = [], ep_options = [], ep_metadata = [],
      ep_roi_method = None, ep_pose = None, ep_hid_profiles = []\<rparr>"

definition register_xu :: "extension_unit \<Rightarrow> endpoint \<Rightarrow> endpoint" where
  "register_xu u ep = ep\<lparr>ep_xus := ep_xus ep @ [u]\<rparr>"

definition register_pixel_format :: "pixel_format \<Rightarrow> endpoint \<Rightarrow> endpoint" where
  "register_pixel_format pf ep = ep\<lparr>ep_pixel_formats := ep_pixel_formats ep @ [pf]\<rparr>"

definition register_option :: "rs2_option \<Rightarrow> option_object \<Rightarrow> endpoint \<Rightarrow> endpoint" where
  "register_option opt obj ep = ep\<lparr>ep_options := AList.update opt obj (ep_options ep)\<rparr>"

definition register_pu :: "rs2_option \<Rightarrow> endpoint \<Rightarrow> endpoint" where
  "register_pu opt ep = register_option opt (uvc_pu_option opt) ep"

definition register_metadata :: "rs2_frame_metadata \<Rightarrow> endpoint \<Rightarrow> endpoint" where
  "register_metadata md ep = ep\<lparr>ep_metadata := ep_metadata ep @ [md]\<rparr>"

definition set_roi_method :: "region_of_interest_method \<Rightarrow> endpoint \<Rightarrow> endpoint" where
  "set_roi_method r ep = ep\<lparr>ep_roi_method := Some r\<rparr>"

definition set_pose :: "pose_source \<Rightarrow> endpoint \<Rightarrow> endpoint" where
  "set_pose p ep = ep\<lparr>ep_pose := Some p\<rparr>"

definition supports_option :: "endpoint \<Rightarrow> rs2_option \<Rightarrow> bool" where
  "supports_option ep opt = (map_of (ep_options ep) opt \<noteq> None)"

text \<open>
  Modelled from the spec: \<^verbatim>\<open>firmware_version\<close> of \<^verbatim>\<open>types.h\<close>, which is not among the
  sources: a structured \<^verbatim>\<open>major.minor.patch.build\<close> version, ordered lexicographically
  field by field (spec, section 3).
\<close>

record firmware_version =
  fw_major :: nat
  fw_minor :: nat
  fw_patch :: nat
  fw_build :: nat

definition firmware_version_of :: "nat \<Rightarrow> nat \<Rightarrow> nat \<Rightarrow> nat \<Rightarrow> firmware_version" where
  "firmware_version_of a b c d = \<lparr>fw_major = a, fw_minor = b, fw_patch = c, fw_build = d\<rparr>"

definition fw_ge :: "firmware_version \<Rightarrow> firmware_version \<Rightarrow> bool" where
  "fw_ge v w =
     (fw_major v > fw_major w \<or>
      (fw_major v = fw_major w \<and>
        (fw_minor v > fw_minor w \<or>
         (fw_minor v = fw_minor w \<and>
           (fw_patch v > fw_patch w \<or>
            (fw_patch v = fw_patch w \<and> fw_build v \<ge> fw_build w))))))"

text \<open>\<^verbatim>\<open>uvc::uvc_device_info\<close> and \<^verbatim>\<open>uvc::hid_device_info\<close>: the fields the file reads.\<close>

record uvc_device_info =
  pid :: "16 word"
  mi :: "32 word"
  device_path :: string

record hid_device_info =
  hid_device_path :: string

text \<open>
  The info map handed to \<^verbatim>\<open>register_endpoint_info\<close>: the module name, the location, the
  serial number and firmware version, and the entries that are present only sometimes.
  The device name, the op code and the product-id string, which are the same for every
  sub-device and come from helpers of other files, are left out.
\<close>

record camera_info =
  ci_module_name :: string
  ci_device_location :: string
  ci_serial_number :: string
  ci_camera_firmware_version :: firmware_version
  ci_advanced_mode :: "string option"
  ci_motion_module_firmware_version :: "string option"
  ci_is_camera_locked :: "string option"

text \<open>
  \<^verbatim>\<open>polling_error_handler\<close> (lines 529-536): the polling interval, the control it polls
  and whether \<^verbatim>\<open>start()\<close> has been called; its decoder is \<open>ds5_notification_decoder_decode\<close>.
\<close>

record polling_error_handler =
  poll_interval :: nat
  poll_error_control :: option_object
  poll_started :: bool

text \<open>
  The members of \<^verbatim>\<open>ds5_camera\<close> (a member \<^verbatim>\<open>_x\<close> is the field \<open>m_x\<close>) and of its base
  class \<^verbatim>\<open>device\<close>: the endpoints in the order of \<^verbatim>\<open>add_endpoint\<close> and the info records in
  the order of \<^verbatim>\<open>register_endpoint_info\<close>. The sub-device indices are kept as the
  \<^verbatim>\<open>unsigned int\<close> values they are compared as.
\<close>

record ds5_camera =
  m_endpoints :: "endpoint list"
  m_endpoint_info :: "(32 word \<times> camera_info) list"
  m_depth_device_idx :: "32 word"
  m_fisheye_device_idx :: "32 word"
  m_motion_module_device_idx :: "32 word"
  m_color_device_idx :: "32 word"
  m_hw_monitor :: hw_monitor
  m_coefficients_table_raw :: "byte list lazy"
  m_fisheye_intrinsics_raw :: "byte list lazy"
  m_fisheye_extrinsics_raw :: "byte list lazy"
  m_motion_module_extrinsics_raw :: "extrinsics lazy"
  m_accel_intrinsics :: "imu_intrinsics lazy"
  m_gyro_intrinsics :: "imu_intrinsics lazy"
  m_polling_error_handler :: "polling_error_handler option"

definition get_endpoints_count :: "ds5_camera \<Rightarrow> nat" where
  "get_endpoints_count c = length (m_endpoints c)"

subsection \<open>What the other files provide\<close>

text \<open>
  The constants, tables and helper functions that \<^verbatim>\<open>ds5.cpp\<close> uses and that are defined
  in files that are not among the sources are parameters of the model: the numeric
  values of the table identifiers and the product identifiers, the size of the
  motion-module table, the validating views \<^verbatim>\<open>check_calib<T>\<close>, the intrinsics and
  extrinsics parsers, \<^verbatim>\<open>inverse\<close> and \<^verbatim>\<open>operator*\<close> on poses, the element access
  \<^verbatim>\<open>rot(i, j)\<close> of \<^verbatim>\<open>float3x3\<close>, the methods of the base class \<^verbatim>\<open>device\<close>, \<^verbatim>\<open>filter_by_mi\<close>,
  the decoders of the \<^verbatim>\<open>GVD\<close> reply behind \<^verbatim>\<open>get_firmware_version_string\<close>,
  \<^verbatim>\<open>get_module_serial_string\<close> and \<^verbatim>\<open>is_camera_locked\<close>, the HID profile table and the
  initial value of the sub-device indices.
\<close>

record rs2_motion_device_intrinsic =
  mdi_data :: "float list"
  mdi_noise_variances :: "float list"
  mdi_bias_variances :: "float list"

record ds_private =
  table_id_value :: "calibration_table_id \<Rightarrow> int32"
  sizeof_imu_calibration_table :: nat
  check_calib_imu :: "byte list \<Rightarrow> error + imu_calibration_table"
  check_calib_coefficients :: "byte list \<Rightarrow> error + coefficients_table"
  get_intrinsic_by_resolution ::
    "byte list \<Rightarrow> calibration_table_id \<Rightarrow> 32 word \<Rightarrow> 32 word \<Rightarrow> error + rs2_intrinsics"
  get_fisheye_extrinsics_data :: "byte list \<Rightarrow> error + pose"
  pose_inverse :: "pose \<Rightarrow> pose"
  pose_mul :: "pose \<Rightarrow> pose \<Rightarrow> pose"
  rot_at :: "float3x3 \<Rightarrow> nat \<Rightarrow> nat \<Rightarrow> float"
  create_motion_intrinsics :: "imu_intrinsics \<Rightarrow> rs2_motion_device_intrinsic"
  device_get_motion_intrinsics ::
    "ds5_camera \<Rightarrow> rs2_stream \<Rightarrow> (error + rs2_motion_device_intrinsic) \<times> ds5_camera"
  device_get_extrinsics ::
    "ds5_camera \<Rightarrow> int32 \<Rightarrow> rs2_stream \<Rightarrow> int32 \<Rightarrow> rs2_stream
      \<Rightarrow> (error + rs2_extrinsics) \<times> ds5_camera"
  filter_by_mi :: "uvc_device_info list \<Rightarrow> 32 word \<Rightarrow> uvc_device_info list"
  gvd_camera_fw_version :: "byte list \<Rightarrow> firmware_version"
  gvd_module_serial :: "byte list \<Rightarrow> string"
  gvd_is_camera_locked :: "byte list \<Rightarrow> bool"
  gvd_motion_module_fw_version :: "byte list \<Rightarrow> string"
  sensor_name_and_hid_profiles :: "(string \<times> stream_profile) list"
  unset_device_idx :: "32 word"
  RS400_PID :: "16 word"
  RS400_MM_PID :: "16 word"
  RS410_PID :: "16 word"
  RS410_MM_PID :: "16 word"
  RS415_PID :: "16 word"
  RS420_MM_PID :: "16 word"
  RS430_PID :: "16 word"
  RS430_MM_PID :: "16 word"
  RS430_MM_RGB_PID :: "16 word"
  RS435_RGB_PID :: "16 word"

subsection \<open>Raw table reads (lines 228-260)\<close>

definition get_raw_calibration_table ::
  "ds_private \<Rightarrow> hw_monitor \<Rightarrow> calibration_table_id \<Rightarrow> (error + byte list) \<times> hw_monitor" where
  "get_raw_calibration_table X hwm table_id = send hwm (command1 GETINTCAL (table_id_value X table_id))"

definition get_raw_fisheye_intrinsics_table :: "hw_monitor \<Rightarrow> (error + byte list) \<times> hw_monitor" where
  "get_raw_fisheye_intrinsics_table hwm = send hwm (command2 MMER 0x84 0x98)"

definition get_motion_module_calibration_table ::
  "ds_private \<Rightarrow> hw_monitor \<Rightarrow> (error + imu_calibration_table) \<times> hw_monitor" where
  "get_motion_module_calibration_table X hwm =
     (case send hwm (command2 MMER 0x134 (of_nat (sizeof_imu_calibration_table X))) of
        (Inl e, hwm') \<Rightarrow> (Inl e, hwm')
      | (Inr result, hwm') \<Rightarrow>
          if length result < sizeof_imu_calibration_table X
          then (Inl (runtime_error ''Not enough data returned from the device!''), hwm')
          else (check_calib_imu X result, hwm'))"

definition get_raw_fisheye_extrinsics_table :: "hw_monitor \<Rightarrow> (error + byte list) \<times> hw_monitor" where
  "get_raw_fisheye_extrinsics_table hwm = send hwm (command0 GET_EXTRINSICS)"

text \<open>\<open>f\<close> applied to the value of a computation that did not fail.\<close>

definition on_result :: "('a \<Rightarrow> 'b) \<Rightarrow> (error + 'a) \<times> 's \<Rightarrow> (error + 'b) \<times> 's" where
  "on_result f r = (case r of (Inl e, s) \<Rightarrow> (Inl e, s) | (Inr v, s) \<Rightarrow> (Inr (f v), s))"

subsection \<open>The six deferred reads of the device (lines 446-451)\<close>

text \<open>
  Each function is \<^verbatim>\<open>operator*\<close> on one \<^verbatim>\<open>lazy\<close> member, with the initialiser the
  constructor assigns to it: it returns the value or the error, and the device with the
  member's new state and the command channel's new log.
\<close>

definition coefficients_table_raw :: "ds_private \<Rightarrow> ds5_camera \<Rightarrow> (error + byte list) \<times> ds5_camera" where
  "coefficients_table_raw X c =
     (case force (\<lambda>h. get_raw_calibration_table X h coefficients_table_id)
             (m_coefficients_table_raw c) (m_hw_monitor c) of
        (r, l, h) \<Rightarrow> (r, c\<lparr>m_coefficients_table_raw := l, m_hw_monitor := h\<rparr>))"

definition fisheye_intrinsics_raw :: "ds_private \<Rightarrow> ds5_camera \<Rightarrow> (error + byte list) \<times> ds5_camera" where
  "fisheye_intrinsics_raw X c =
     (case force get_raw_fisheye_intrinsics_table (m_fisheye_intrinsics_raw c) (m_hw_monitor c) of
        (r, l, h) \<Rightarrow> (r, c\<lparr>m_fisheye_intrinsics_raw := l, m_hw_monitor := h\<rparr>))"

definition fisheye_extrinsics_raw :: "ds_private \<Rightarrow> ds5_camera \<Rightarrow> (error + byte list) \<times> ds5_camera" where
  "fisheye_extrinsics_raw X c =
     (case force get_raw_fisheye_extrinsics_table (m_fisheye_extrinsics_raw c) (m_hw_monitor c) of
        (r, l, h) \<Rightarrow> (r, c\<lparr>m_fisheye_extrinsics_raw := l, m_hw_monitor := h\<rparr>))"

definition motion_module_extrinsics_raw ::
  "ds_private \<Rightarrow> ds5_camera \<Rightarrow> (error + extrinsics) \<times> ds5_camera" where
  "motion_module_extrinsics_raw X c =
     (case force (\<lambda>h. on_result imu_to_fisheye (get_motion_module_calibration_table X h))
             (m_motion_module_extrinsics_raw c) (m_hw_monitor c) of
        (r, l, h) \<Rightarrow> (r, c\<lparr>m_motion_module_extrinsics_raw := l, m_hw_monitor := h\<rparr>))"

definition accel_intrinsics_value ::
  "ds_private \<Rightarrow> ds5_camera \<Rightarrow> (error + imu_intrinsics) \<times> ds5_camera" where
  "accel_intrinsics_value X c =
     (case force (\<lambda>h. on_result accel_intrinsics (get_motion_module_calibration_table X h))
             (m_accel_intrinsics c) (m_hw_monitor c) of
        (r, l, h) \<Rightarrow> (r, c\<lparr>m_accel_intrinsics := l, m_hw_monitor := h\<rparr>))"

definition gyro_intrinsics_value ::
  "ds_private \<Rightarrow> ds5_camera \<Rightarrow> (error + imu_intrinsics) \<times> ds5_camera" where
  "gyro_intrinsics_value X c =
     (case force (\<lambda>h. on_result gyro_intrinsics (get_motion_module_calibration_table X h))
             (m_gyro_intrinsics c) (m_hw_monitor c) of
        (r, l, h) \<Rightarrow> (r, c\<lparr>m_gyro_intrinsics := l, m_hw_monitor := h\<rparr>))"

subsection \<open>Queries (lines 140-215 and 788-810)\<close>

definition get_motion_intrinsics ::
  "ds_private \<Rightarrow> ds5_camera \<Rightarrow> rs2_stream \<Rightarrow> (error + rs2_motion_device_intrinsic) \<times> ds5_camera" where
  "get_motion_intrinsics X c stream =
     (if stream = RS2_STREAM_ACCEL then on_result (create_motion_intrinsics X) (accel_intrinsics_value X c)
      else if stream = RS2_STREAM_GYRO then on_result (create_motion_intrinsics X) (gyro_intrinsics_value X c)
      else device_get_motion_intrinsics X c stream)"

definition unsupported_subdevice :: "32 word \<Rightarrow> error" where
  "unsupported_subdevice subdevice =
     invalid_value_exception
       (''Requested subdevice '' @ string_of_nat (unat subdevice) @ '' is unsupported.'')"

definition get_intrinsics ::
  "ds_private \<Rightarrow> ds5_camera \<Rightarrow> 32 word \<Rightarrow> stream_profile \<Rightarrow> (error + rs2_intrinsics) \<times> ds5_camera" where
  "get_intrinsics X c subdevice profile =
     (if unat subdevice \<ge> get_endpoints_count c then (Inl (unsupported_subdevice subdevice), c)
      else if subdevice = m_depth_device_idx c then
        (case coefficients_table_raw X c of
           (Inl e, c') \<Rightarrow> (Inl e, c')
         | (Inr raw, c') \<Rightarrow>
             (get_intrinsic_by_resolution X raw coefficients_table_id
                (sp_width profile) (sp_height profile), c'))
      else if subdevice = m_fisheye_device_idx c then
        (case fisheye_intrinsics_raw X c of
           (Inl e, c') \<Rightarrow> (Inl e, c')
         | (Inr raw, c') \<Rightarrow>
             (get_intrinsic_by_resolution X raw fisheye_calibration_id
                (sp_width profile) (sp_height profile), c'))
      else (Inl (not_implemented_exception ''Not Implemented''), c))"

text \<open>The pose \<^verbatim>\<open>ex\<close> that lines 205-209 build from the motion-module extrinsics.\<close>

definition motion_module_ex :: "ds_private \<Rightarrow> extrinsics \<Rightarrow> pose" where
  "motion_module_ex X motion_extr =
     (let rot = rot_at X (ex_rotation motion_extr);
          trans = float3_at (ex_translation motion_extr)
      in \<lparr>orientation =
            \<lparr>col_x = float3_of (rot 0 0) (rot 1 0) (rot 2 0),
             col_y = float3_of (rot 1 0) (rot 1 1) (rot 2 1),
             col_z = float3_of (rot 0 2) (rot 1 2) (rot 2 2)\<rparr>,
          position = float3_of (trans 0) (trans 1) (trans 2)\<rparr>)"

function get_device_position ::
  "ds_private \<Rightarrow> ds5_camera \<Rightarrow> 32 word \<Rightarrow> (error + pose) \<times> ds5_camera" where
  "get_device_position X c subdevice =
     (if unat subdevice \<ge> get_endpoints_count c then (Inl (unsupported_subdevice subdevice), c)
      else if subdevice = m_fisheye_device_idx c then
        (case fisheye_extrinsics_raw X c of
           (Inl e, c') \<Rightarrow> (Inl e, c')
         | (Inr raw, c') \<Rightarrow>
             (case get_fisheye_extrinsics_data X raw of
                Inl e \<Rightarrow> (Inl e, c')
              | Inr extr \<Rightarrow> (Inr (pose_inverse X extr), c')))
      else if subdevice = m_motion_module_device_idx c then
        (case get_device_position X c (m_fisheye_device_idx c) of
           (Inl e, c1) \<Rightarrow> (Inl e, c1)
         | (Inr fe_pose, c1) \<Rightarrow>
             (case motion_module_extrinsics_raw X c1 of
                (Inl e, c2) \<Rightarrow> (Inl e, c2)
              | (Inr motion_extr, c2) \<Rightarrow>
                  (Inr (pose_mul X fe_pose (motion_module_ex X motion_extr)), c2)))
      else (Inl (not_implemented_exception ''Not Implemented''), c))"
  by pat_completeness auto
termination
  by (relation "measure (\<lambda>(X, c, subdevice). if subdevice = m_fisheye_device_idx c then 0 else 1)")
    auto

declare get_device_position.simps [simp del]

definition is_left :: "rs2_stream \<Rightarrow> bool" where
  "is_left s = (s = RS2_STREAM_INFRARED \<or> s = RS2_STREAM_DEPTH)"

text \<open>The initial value \<^verbatim>\<open>{ {1,0,0,0,1,0,0,0,1}, {0,0,0} }\<close> of line 794.\<close>

definition identity_extrinsics :: rs2_extrinsics where
  "identity_extrinsics =
     \<lparr>rotation = [f_1, f_0, f_0, f_0, f_1, f_0, f_0, f_0, f_1], translation = [f_0, f_0, f_0]\<rparr>"

definition get_extrinsics ::
  "ds_private \<Rightarrow> ds5_camera \<Rightarrow> int32 \<Rightarrow> rs2_stream \<Rightarrow> int32 \<Rightarrow> rs2_stream
    \<Rightarrow> (error + rs2_extrinsics) \<times> ds5_camera" where
  "get_extrinsics X c from_subdevice from_stream to_subdevice to_stream =
     (if from_subdevice = to_subdevice \<and> from_subdevice = 0 then
        let ext = identity_extrinsics in
        if is_left to_stream \<and> from_stream = RS2_STREAM_INFRARED2 then
          (case coefficients_table_raw X c of
             (Inl e, c') \<Rightarrow> (Inl e, c')
           | (Inr raw, c') \<Rightarrow>
               (case check_calib_coefficients X raw of
                  Inl e \<Rightarrow> (Inl e, c')
                | Inr table \<Rightarrow>
                    (Inr (ext\<lparr>translation :=
                            (translation ext)[0 := fmul (fneg f_0_001) (baseline table)]\<rparr>), c')))
        else if to_stream = RS2_STREAM_INFRARED2 \<and> is_left from_stream then
          (case coefficients_table_raw X c of
             (Inl e, c') \<Rightarrow> (Inl e, c')
           | (Inr raw, c') \<Rightarrow>
               (case check_calib_coefficients X raw of
                  Inl e \<Rightarrow> (Inl e, c')
                | Inr table \<Rightarrow>
                    (Inr (ext\<lparr>translation :=
                            (translation ext)[0 := fmul f_0_001 (baseline table)]\<rparr>), c')))
        else device_get_extrinsics X c from_subdevice from_stream to_subdevice to_stream
      else device_get_extrinsics X c from_subdevice from_stream to_subdevice to_stream)"

subsection \<open>Building the endpoints (lines 262-421)\<close>

text \<open>\<open>configure steps ep\<close> applies the registrations \<open>steps\<close> to \<open>ep\<close> in the order written.\<close>

definition configure :: "('a \<Rightarrow> 'a) list \<Rightarrow> 'a \<Rightarrow> 'a" where
  "configure steps ep = fold (\<lambda>step. step) steps ep"

text \<open>\<^verbatim>\<open>is_camera_in_advanced_mode\<close> (lines 217-226).\<close>

definition is_camera_in_advanced_mode :: "hw_monitor \<Rightarrow> (error + bool) \<times> hw_monitor" where
  "is_camera_in_advanced_mode hwm =
     (case send hwm (command0 UAMG) of
        (Inl e, hwm') \<Rightarrow> (Inl e, hwm')
      | (Inr ret, hwm') \<Rightarrow>
          if ret = [] then (Inl (invalid_value_exception ''command result is empty!''), hwm')
          else (Inr (0 \<noteq> hd ret), hwm'))"

text \<open>The four custom sensor profiles of lines 274-278.\<close>

definition custom_sensor_profiles :: "(string \<times> stream_profile) list" where
  "custom_sensor_profiles =
     [(''custom'', \<lparr>sp_stream = RS2_STREAM_GPIO1, sp_width = 1, sp_height = 1, sp_fps = 1\<rparr>),
      (''custom'', \<lparr>sp_stream = RS2_STREAM_GPIO2, sp_width = 1, sp_height = 1, sp_fps = 1\<rparr>),
      (''custom'', \<lparr>sp_stream = RS2_STREAM_GPIO3, sp_width = 1, sp_height = 1, sp_fps = 1\<rparr>),
      (''custom'', \<lparr>sp_stream = RS2_STREAM_GPIO4, sp_width = 1, sp_height = 1, sp_fps = 1\<rparr>)]"

text \<open>
  \<^verbatim>\<open>create_hid_device\<close> (lines 262-302). The profile table it extends is a global of
  another file; the model extends the table it is given.
\<close>

definition create_hid_device ::
  "ds_private \<Rightarrow> hid_device_info list \<Rightarrow> firmware_version \<Rightarrow> error + endpoint" where
  "create_hid_device X all_hid_infos camera_fw_version =
     (if all_hid_infos = [] then Inl (runtime_error ''HID device is missing!'')
      else
        let custom = fw_ge camera_fw_version (firmware_version_of 5 6 0 0);
            profiles = sensor_name_and_hid_profiles X @ (if custom then custom_sensor_profiles else [])
        in Inr (configure
                 ([register_pixel_format pf_accel_axes,
                   register_pixel_format pf_gyro_axes,
                   set_pose pose_identity]
                  @ (if custom
                     then [register_option RS2_OPTION_MOTION_MODULE_TEMPERATURE
                             motion_module_temperature_option,
                           register_pixel_format pf_gpio_timestamp]
                     else []))
                 ((new_endpoint hid_endpoint)\<lparr>ep_hid_profiles := profiles\<rparr>)))"

text \<open>\<^verbatim>\<open>create_depth_device\<close> (lines 304-343), for the product id of the first device info.\<close>

definition create_depth_device :: "ds_private \<Rightarrow> 16 word \<Rightarrow> endpoint" where
  "create_depth_device X pid0 =
     configure
       ([register_xu depth_xu,
         register_pixel_format pf_z16,
         register_pixel_format pf_y8,
         register_pixel_format pf_yuyv,
         register_pixel_format pf_uyvyl,
         register_pixel_format pf_rgb888]
        @ (if pid0 = RS410_PID X \<or> pid0 = RS430_MM_PID X \<or> pid0 = RS430_PID X
                \<or> pid0 = RS430_MM_RGB_PID X \<or> pid0 = RS435_RGB_PID X
           then [register_option RS2_OPTION_EMITTER_ENABLED emitter_option,
                 register_option RS2_OPTION_LASER_POWER
                   (uvc_xu_option 16 depth_xu DS5_LASER_POWER
                      ''Manual laser power in mw. applicable only when laser power mode is set to Manual'')]
           else [])
        @ [set_pose pose_identity])
       (new_endpoint uvc_endpoint)"

text \<open>\<^verbatim>\<open>create_color_device\<close> (lines 345-375), without the \<^verbatim>\<open>add_endpoint\<close> of line 355.\<close>

definition create_color_device :: endpoint where
  "create_color_device =
     configure
       [register_pixel_format pf_yuyv,
        register_pixel_format pf_yuy2,
        register_pixel_format pf_bayer16,
        register_pu RS2_OPTION_BACKLIGHT_COMPENSATION,
        register_pu RS2_OPTION_BRIGHTNESS,
        register_pu RS2_OPTION_CONTRAST,
        register_pu RS2_OPTION_EXPOSURE,
        register_pu RS2_OPTION_GAIN,
        register_pu RS2_OPTION_GAMMA,
        register_pu RS2_OPTION_HUE,
        register_pu RS2_OPTION_SATURATION,
        register_pu RS2_OPTION_SHARPNESS,
        register_pu RS2_OPTION_WHITE_BALANCE,
        register_pu RS2_OPTION_ENABLE_AUTO_EXPOSURE,
        register_pu RS2_OPTION_ENABLE_AUTO_WHITE_BALANCE]
       (new_endpoint uvc_endpoint)"

text \<open>
  \<^verbatim>\<open>register_auto_exposure_options\<close> (lines 377-421): the mechanism it builds and
  returns, and the endpoint with the five options registered.
\<close>

definition register_auto_exposure_options ::
  "endpoint \<Rightarrow> extension_unit \<Rightarrow> auto_exposure_mechanism \<times> endpoint" where
  "register_auto_exposure_options uvc_ep xu =
     (let gain_option = uvc_pu_option RS2_OPTION_GAIN;
          exposure_option = uvc_xu_option 16 xu FISHEYE_EXPOSURE ''Exposure time of Fisheye camera'';
          auto_exposure = \<lparr>ae_gain_option = gain_option, ae_exposure_option = exposure_option,
                            ae_roi_updates = []\<rparr>;
          auto_exposure_option = enable_auto_exposure_option
      in (auto_exposure,
          configure
            [register_option RS2_OPTION_ENABLE_AUTO_EXPOSURE auto_exposure_option,
             register_option RS2_OPTION_AUTO_EXPOSURE_MODE auto_exposure_mode_option,
             register_option RS2_OPTION_AUTO_EXPOSURE_ANTIFLICKER_RATE
               auto_exposure_antiflicker_rate_option,
             register_option RS2_OPTION_GAIN
               (auto_disabling_control gain_option auto_exposure_option),
             register_option RS2_OPTION_EXPOSURE
               (auto_disabling_control exposure_option auto_exposure_option)]
            uvc_ep))"

subsection \<open>The constructor (lines 423-772)\<close>

text \<open>
  What the constructor reads from the hardware, in the order of lines 454, 455, 459,
  473 and 550: the firmware version, the serial number and the advanced-mode flag
  always; the lock state from firmware 5.6.3.0 on; the motion-module firmware version
  from firmware 5.5.8.0 on, for the two motion-module products. Each read is one
  command, and a failure of any of them ends the construction.
\<close>

record device_state =
  camera_fw_version :: firmware_version
  serial :: string
  advanced_mode :: bool
  is_camera_locked :: string
  motion_module_fw_version :: string

definition query_gvd :: "(byte list \<Rightarrow> 'a) \<Rightarrow> hw_monitor \<Rightarrow> (error + 'a) \<times> hw_monitor" where
  "query_gvd decode hwm = on_result decode (send hwm (command0 GVD))"

definition is_motion_module_pid :: "ds_private \<Rightarrow> 16 word \<Rightarrow> bool" where
  "is_motion_module_pid X p = (p = RS430_MM_PID X \<or> p = RS420_MM_PID X)"

definition is_rgb_pid :: "ds_private \<Rightarrow> 16 word \<Rightarrow> bool" where
  "is_rgb_pid X p = (p = RS415_PID X \<or> p = RS430_MM_RGB_PID X \<or> p = RS435_RGB_PID X)"

definition read_device_state ::
  "ds_private \<Rightarrow> 16 word \<Rightarrow> hw_monitor \<Rightarrow> (error + device_state) \<times> hw_monitor" where
  "read_device_state X pid0 hwm0 =
     (case query_gvd (gvd_camera_fw_version X) hwm0 of
        (Inl e, hwm1) \<Rightarrow> (Inl e, hwm1)
      | (Inr fw, hwm1) \<Rightarrow>
     (case query_gvd (gvd_module_serial X) hwm1 of
        (Inl e, hwm2) \<Rightarrow> (Inl e, hwm2)
      | (Inr sn, hwm2) \<Rightarrow>
     (case is_camera_in_advanced_mode hwm2 of
        (Inl e, hwm3) \<Rightarrow> (Inl e, hwm3)
      | (Inr adv, hwm3) \<Rightarrow>
     (case (if fw_ge fw (firmware_version_of 5 6 3 0)
            then on_result (\<lambda>is_locked. if is_locked then ''YES'' else ''NO'')
                   (query_gvd (gvd_is_camera_locked X) hwm3)
            else (Inr [], hwm3)) of
        (Inl e, hwm4) \<Rightarrow> (Inl e, hwm4)
      | (Inr locked, hwm4) \<Rightarrow>
     (case (if fw_ge fw (firmware_version_of 5 5 8 0) \<and> is_motion_module_pid X pid0
            then query_gvd (gvd_motion_module_fw_version X) hwm4
            else (Inr [], hwm4)) of
        (Inl e, hwm5) \<Rightarrow> (Inl e, hwm5)
      | (Inr mm_fw, hwm5) \<Rightarrow>
          (Inr \<lparr>camera_fw_version = fw, serial = sn, advanced_mode = adv,
                is_camera_locked = locked, motion_module_fw_version = mm_fw\<rparr>, hwm5))))))"

text \<open>The registrations on the depth endpoint of lines 488-518 (firmware 5.6.3.0 on).\<close>

definition depth_options_5_6_3 :: "ds_private \<Rightarrow> 16 word \<Rightarrow> (endpoint \<Rightarrow> endpoint) list" where
  "depth_options_5_6_3 X pid0 =
     (let exposure_option = uvc_xu_option 32 depth_xu DS5_EXPOSURE ''Depth Exposure'';
          enable_auto_exposure =
            uvc_xu_option 8 depth_xu DS5_ENABLE_AUTO_EXPOSURE ''Enable Auto Exposure''
      in [register_pu RS2_OPTION_GAIN,
          register_option RS2_OPTION_EXPOSURE exposure_option,
          register_option RS2_OPTION_ENABLE_AUTO_EXPOSURE enable_auto_exposure,
          register_option RS2_OPTION_GAIN
            (auto_disabling_control (uvc_pu_option RS2_OPTION_GAIN) enable_auto_exposure),
          register_option RS2_OPTION_EXPOSURE
            (auto_disabling_control exposure_option enable_auto_exposure)]
         @ (if pid0 = RS400_PID X \<or> pid0 = RS400_MM_PID X \<or> pid0 = RS410_PID X
                 \<or> pid0 = RS410_MM_PID X \<or> pid0 = RS415_PID X
            then [register_option RS2_OPTION_ENABLE_AUTO_WHITE_BALANCE
                    (uvc_xu_option 8 depth_xu DS5_ENABLE_AUTO_WHITE_BALANCE
                       ''Enable Auto White Balance'')]
            else []))"

text \<open>The registrations on the depth endpoint of lines 523-548 (firmware 5.5.8.0 on).\<close>

definition depth_options_5_5_8 :: "ds_private \<Rightarrow> 16 word \<Rightarrow> (endpoint \<Rightarrow> endpoint) list" where
  "depth_options_5_5_8 X pid0 =
     [register_option RS2_OPTION_OUTPUT_TRIGGER_ENABLED
        (uvc_xu_option 8 depth_xu DS5_EXT_TRIGGER
           ''Generate trigger from the camera to external device once per frame''),
      register_option RS2_OPTION_ERROR_POLLING_ENABLED polling_errors_disable]
     @ (if pid0 = RS410_PID X \<or> pid0 = RS430_MM_PID X \<or> pid0 = RS430_PID X
        then [register_option RS2_OPTION_PROJECTOR_TEMPERATURE
                (asic_and_projector_temperature_options RS2_OPTION_PROJECTOR_TEMPERATURE)]
        else [])
     @ [register_option RS2_OPTION_ASIC_TEMPERATURE
          (asic_and_projector_temperature_options RS2_OPTION_ASIC_TEMPERATURE)]"

text \<open>The polling error handler of lines 527-536, created and started.\<close>

definition new_polling_error_handler :: polling_error_handler where
  "new_polling_error_handler =
     \<lparr>poll_interval = 1000,
      poll_error_control = uvc_xu_option 8 depth_xu DS5_ERROR_REPORTING ''Error reporting'',
      poll_started = True\<rparr>"

text \<open>The metadata fields of the depth endpoint (lines 561-595).\<close>

definition depth_metadata :: "(endpoint \<Rightarrow> endpoint) list" where
  "depth_metadata =
     map register_metadata
       [RS2_FRAME_METADATA_FRAME_TIMESTAMP, RS2_FRAME_METADATA_FRAME_COUNTER,
        RS2_FRAME_METADATA_SENSOR_TIMESTAMP, RS2_FRAME_METADATA_WHITE_BALANCE,
        RS2_FRAME_METADATA_GAIN_LEVEL, RS2_FRAME_METADATA_ACTUAL_EXPOSURE,
        RS2_FRAME_METADATA_AUTO_EXPOSURE, RS2_FRAME_METADATA_HW_TYPE,
        RS2_FRAME_METADATA_SKU_ID, RS2_FRAME_METADATA_FORMAT, RS2_FRAME_METADATA_WIDTH,
        RS2_FRAME_METADATA_HEIGHT]"

text \<open>Everything the constructor registers on the depth endpoint (lines 458-595).\<close>

definition setup_depth_endpoint :: "ds_private \<Rightarrow> 16 word \<Rightarrow> device_state \<Rightarrow> endpoint \<Rightarrow> endpoint" where
  "setup_depth_endpoint X pid0 q depth_ep =
     configure
       ((if advanced_mode q
         then [register_pixel_format pf_y8i, register_pixel_format pf_y12i] else [])
        @ (if fw_ge (camera_fw_version q) (firmware_version_of 5 6 3 0)
           then depth_options_5_6_3 X pid0 else [])
        @ (if fw_ge (camera_fw_version q) (firmware_version_of 5 5 8 0)
           then depth_options_5_5_8 X pid0 else [])
        @ [set_roi_method ds5_roi_method,
           register_option RS2_OPTION_DEPTH_UNITS
             (if advanced_mode q then depth_scale_option
              else const_value_option ''Number of meters represented by a single depth unit''
                     f_0_001)]
        @ depth_metadata)
       depth_ep"

text \<open>The fisheye endpoint as lines 605-672 build it.\<close>

definition create_fisheye_endpoint :: "firmware_version \<Rightarrow> endpoint" where
  "create_fisheye_endpoint fw =
     configure
       ([register_xu fisheye_xu,
         register_pixel_format pf_raw8,
         register_pixel_format pf_fe_raw8_unpatched_kernel]
        @ (if fw_ge fw (firmware_version_of 5 6 3 0)
           then [\<lambda>fisheye_ep.
                   case register_auto_exposure_options fisheye_ep fisheye_xu of
                     (fisheye_auto_exposure, fisheye_ep') \<Rightarrow>
                       set_roi_method
                         (fisheye_roi_method
                            (fisheye_auto_exposure_roi_method_new fisheye_auto_exposure))
                         fisheye_ep']
           else [register_option RS2_OPTION_GAIN (uvc_pu_option RS2_OPTION_GAIN),
                 register_option RS2_OPTION_EXPOSURE
                   (uvc_xu_option 16 fisheye_xu FISHEYE_EXPOSURE
                      ''Exposure time of Fisheye camera'')])
        @ map register_metadata
            [RS2_FRAME_METADATA_FRAME_TIMESTAMP, RS2_FRAME_METADATA_AUTO_EXPOSURE,
             RS2_FRAME_METADATA_FRAME_COUNTER, RS2_FRAME_METADATA_SENSOR_TIMESTAMP,
             RS2_FRAME_METADATA_HW_TYPE, RS2_FRAME_METADATA_SKU_ID, RS2_FRAME_METADATA_FORMAT,
             RS2_FRAME_METADATA_WIDTH, RS2_FRAME_METADATA_HEIGHT,
             RS2_FRAME_METADATA_GAIN_LEVEL, RS2_FRAME_METADATA_ACTUAL_EXPOSURE]
        @ [set_pose pose_of_fisheye_device])
       (new_endpoint uvc_endpoint)"

text \<open>\<^verbatim>\<open>add_endpoint\<close> of the base class: the new endpoint's index, and the device with it.\<close>

definition add_endpoint :: "endpoint \<Rightarrow> ds5_camera \<Rightarrow> 32 word \<times> ds5_camera" where
  "add_endpoint ep c = (of_nat (length (m_endpoints c)), c\<lparr>m_endpoints := m_endpoints c @ [ep]\<rparr>)"

definition register_endpoint_info :: "32 word \<Rightarrow> camera_info \<Rightarrow> ds5_camera \<Rightarrow> ds5_camera" where
  "register_endpoint_info idx info c = c\<lparr>m_endpoint_info := m_endpoint_info c @ [(idx, info)]\<rparr>"

definition optional_entry :: "string \<Rightarrow> string option" where
  "optional_entry v = (if v = [] then None else Some v)"

definition module_info :: "device_state \<Rightarrow> string \<Rightarrow> string \<Rightarrow> camera_info" where
  "module_info q name location =
     \<lparr>ci_module_name = name, ci_device_location = location, ci_serial_number = serial q,
      ci_camera_firmware_version = camera_fw_version q, ci_advanced_mode = None,
      ci_motion_module_firmware_version = optional_entry (motion_module_fw_version q),
      ci_is_camera_locked = optional_entry (is_camera_locked q)\<rparr>"

text \<open>
  The motion-correction option of lines 678-689: both intrinsics are read (the
  acceleration's first); an exception of either read is caught, and the option is then
  not registered.
\<close>

definition try_motion_correction :: "ds_private \<Rightarrow> ds5_camera \<Rightarrow> bool \<times> ds5_camera" where
  "try_motion_correction X c =
     (case accel_intrinsics_value X c of
        (Inl e, c1) \<Rightarrow> (False, c1)
      | (Inr a, c1) \<Rightarrow>
          (case gyro_intrinsics_value X c1 of
             (Inl e, c2) \<Rightarrow> (False, c2)
           | (Inr g, c2) \<Rightarrow> (True, c2)))"

text \<open>
  Lines 599-709: the fisheye and the motion-module sub-device of the two motion-module
  products. An endpoint is added in the state it has when the constructor returns.
\<close>

definition add_fisheye_and_motion_module ::
  "ds_private \<Rightarrow> uvc_device_info list \<Rightarrow> hid_device_info list \<Rightarrow> 16 word \<Rightarrow> device_state
    \<Rightarrow> ds5_camera \<Rightarrow> error + ds5_camera" where
  "add_fisheye_and_motion_module X dev_info hid_info pid0 q c =
     (if is_motion_module_pid X pid0 then
        let fisheye_infos = filter_by_mi X dev_info 3 in
        if length fisheye_infos \<noteq> 1
        then Inl (invalid_value_exception
                    ''RS450 model is expected to include a single fish-eye device!'')
        else
          (case add_endpoint (create_fisheye_endpoint (camera_fw_version q)) c of
             (fisheye_idx, c1) \<Rightarrow>
          (case create_hid_device X hid_info (camera_fw_version q) of
             Inl e \<Rightarrow> Inl e
           | Inr hid_ep \<Rightarrow>
          (case try_motion_correction X c1 of
             (corrected, c2) \<Rightarrow>
          (case add_endpoint
                  (configure
                     ((if corrected
                       then [register_option RS2_OPTION_ENABLE_MOTION_CORRECTION
                               enable_motion_correction]
                       else [])
                      @ [set_pose pose_of_motion_module_device])
                     hid_ep)
                  (c2\<lparr>m_fisheye_device_idx := fisheye_idx\<rparr>) of
             (motion_module_idx, c3) \<Rightarrow>
               Inr (configure
                      (map (\<lambda>elem. register_endpoint_info motion_module_idx
                                      (module_info q ''Motion Module'' (hid_device_path elem)))
                         hid_info)
                      (c3\<lparr>m_motion_module_device_idx := motion_module_idx\<rparr>))))))
      else Inr c)"

text \<open>Lines 711-722: the colour sub-device of the three products that have one.\<close>

definition add_color_device ::
  "ds_private \<Rightarrow> uvc_device_info list \<Rightarrow> 16 word \<Rightarrow> ds5_camera \<Rightarrow> error + ds5_camera" where
  "add_color_device X dev_info pid0 c =
     (if is_rgb_pid X pid0 then
        let color_devs_info = filter_by_mi X dev_info 3 in
        if length color_devs_info \<noteq> 1
        then Inl (invalid_value_exception
                    (''RS4XX with RGB models are expected to include a single color device! - ''
                     @ string_of_nat (length color_devs_info) @ '' found''))
        else
          (case add_endpoint (set_pose pose_identity create_color_device) c of
             (color_idx, c1) \<Rightarrow> Inr (c1\<lparr>m_color_device_idx := color_idx\<rparr>))
      else Inr c)"

text \<open>Lines 724-771: one info record for each device info that belongs to a sub-device.\<close>

definition register_device_info ::
  "ds_private \<Rightarrow> device_state \<Rightarrow> bool \<Rightarrow> bool \<Rightarrow> uvc_device_info \<Rightarrow> ds5_camera \<Rightarrow> ds5_camera" where
  "register_device_info X q has_fisheye has_color element c =
     (if mi element = 0 then
        register_endpoint_info (m_depth_device_idx c)
          ((module_info q ''Stereo Module'' (device_path element))
             \<lparr>ci_advanced_mode := Some (if advanced_mode q then ''YES'' else ''NO'')\<rparr>) c
      else if has_fisheye \<and> is_motion_module_pid X (pid element) \<and> mi element = 3 then
        register_endpoint_info (m_fisheye_device_idx c)
          (module_info q ''Fisheye Camera'' (device_path element)) c
      else if has_color \<and> (pid element = RS415_PID X \<or> pid element = RS435_RGB_PID X)
              \<and> mi element = 3 then
        register_endpoint_info (m_color_device_idx c)
          ((module_info q ''RGB Camera'' (device_path element))
             \<lparr>ci_motion_module_firmware_version := None, ci_is_camera_locked := None\<rparr>) c
      else c)"

text \<open>
  The device after the hardware reads: the depth endpoint with all its registrations
  (index 0), the six deferred members unevaluated, then the optional sub-devices and the
  info records.
\<close>

definition build_device ::
  "ds_private \<Rightarrow> uvc_device_info list \<Rightarrow> hid_device_info list \<Rightarrow> device_state \<Rightarrow> hw_monitor
    \<Rightarrow> error + ds5_camera" where
  "build_device X dev_info hid_info q hwm =
     (let pid0 = pid (hd dev_info);
          c0 = \<lparr>m_endpoints = [setup_depth_endpoint X pid0 q (create_depth_device X pid0)],
                m_endpoint_info = [],
                m_depth_device_idx = 0,
                m_fisheye_device_idx = unset_device_idx X,
                m_motion_module_device_idx = unset_device_idx X,
                m_color_device_idx = unset_device_idx X,
                m_hw_monitor = hwm,
                m_coefficients_table_raw = Unevaluated,
                m_fisheye_intrinsics_raw = Unevaluated,
                m_fisheye_extrinsics_raw = Unevaluated,
                m_motion_module_extrinsics_raw = Unevaluated,
                m_accel_intrinsics = Unevaluated,
                m_gyro_intrinsics = Unevaluated,
                m_polling_error_handler =
                  (if fw_ge (camera_fw_version q) (firmware_version_of 5 5 8 0)
                   then Some new_polling_error_handler else None)\<rparr>
      in case add_fisheye_and_motion_module X dev_info hid_info pid0 q c0 of
           Inl e \<Rightarrow> Inl e
         | Inr c1 \<Rightarrow>
             (case add_color_device X dev_info pid0 c1 of
                Inl e \<Rightarrow> Inl e
              | Inr c2 \<Rightarrow>
                  Inr (configure
                         (map (register_device_info X q (is_motion_module_pid X pid0)
                                 (is_rgb_pid X pid0))
                            dev_info)
                         c2)))"

text \<open>
  \<^verbatim>\<open>ds5_camera::ds5_camera\<close>. The command channel \<open>hwm\<close> stands for the monitor that
  lines 431-444 create over USB or over the extension unit (and that lines 476-486 may
  replace by one over the extension unit): the hardware behind it is the same. The
  constructor is called
  with the device infos of one group, which is not empty (line 109); on an empty list,
  where \<^verbatim>\<open>front()\<close> is undefined in C++, the model fails.
\<close>

definition ds5_camera_ctor ::
  "ds_private \<Rightarrow> uvc_device_info list \<Rightarrow> hid_device_info list \<Rightarrow> hw_monitor \<Rightarrow> error + ds5_camera" where
  "ds5_camera_ctor X dev_info hid_info hwm =
     (if dev_info = [] then Inl (runtime_error ''front() of an empty vector'')
      else
        case read_device_state X (pid (hd dev_info)) hwm of
          (Inl e, hwm') \<Rightarrow> Inl e
        | (Inr q, hwm') \<Rightarrow> build_device X dev_info hid_info q hwm')"



subsection \<open>Reference readings used to state the properties\<close>

text \<open>
  The specification's reading of a response buffer: \<open>le16_value res i\<close> is the \<open>i\<close>-th
  16-bit little-endian value of \<open>res\<close>, as a number, and \<open>spec_decode_roi\<close> puts the first
  four of them into \<open>min_y\<close>, \<open>max_y\<close>, \<open>min_x\<close>, \<open>max_x\<close>, in this order.
\<close>

definition le16_value :: "byte list \<Rightarrow> nat \<Rightarrow> int" where
  "le16_value res i = uint (res ! (2 * i)) + 256 * uint (res ! (2 * i + 1))"

definition spec_decode_roi :: "byte list \<Rightarrow> region_of_interest" where
  "spec_decode_roi res =
     \<lparr>min_x = word_of_int (le16_value res 2), min_y = word_of_int (le16_value res 0),
      max_x = word_of_int (le16_value res 3), max_y = word_of_int (le16_value res 1)\<rparr>"

text \<open>An instance of the fault codes: the enumerators numbered 1, 2 and 3.\<close>

definition notification_codes_123 :: ds5_notifications_types where
  "notification_codes_123 =
     \<lparr>hot_laser_power_reduce = 1, hot_laser_disable = 2, flag_B_laser_disable = 3\<rparr>"

text \<open>
  Modelled from the spec: \<^verbatim>\<open>operator*\<close> and \<^verbatim>\<open>inverse\<close> on poses, of \<^verbatim>\<open>types.h\<close>, which
  is not among the sources. The spec (section 3) composes poses by the standard
  rigid-transform composition (rotate the translation by the outer rotation, then add)
  and inverts them by the standard inverse (transpose the rotation, negate the rotated
  translation). The three \<^verbatim>\<open>float3\<close> of a \<^verbatim>\<open>float3x3\<close> are its columns.
\<close>

definition float3_add :: "float3 \<Rightarrow> float3 \<Rightarrow> float3" where
  "float3_add a b = float3_of (fadd (f3_x a) (f3_x b)) (fadd (f3_y a) (f3_y b)) (fadd (f3_z a) (f3_z b))"

definition float3_scale :: "float3 \<Rightarrow> float \<Rightarrow> float3" where
  "float3_scale a k = float3_of (fmul (f3_x a) k) (fmul (f3_y a) k) (fmul (f3_z a) k)"

definition float3x3_apply :: "float3x3 \<Rightarrow> float3 \<Rightarrow> float3" where
  "float3x3_apply a v =
     float3_add (float3_add (float3_scale (col_x a) (f3_x v)) (float3_scale (col_y a) (f3_y v)))
       (float3_scale (col_z a) (f3_z v))"

definition float3x3_mul :: "float3x3 \<Rightarrow> float3x3 \<Rightarrow> float3x3" where
  "float3x3_mul a b =
     \<lparr>col_x = float3x3_apply a (col_x b), col_y = float3x3_apply a (col_y b),
      col_z = float3x3_apply a (col_z b)\<rparr>"

definition float3x3_transpose :: "float3x3 \<Rightarrow> float3x3" where
  "float3x3_transpose a =
     \<lparr>col_x = float3_of (f3_x (col_x a)) (f3_x (col_y a)) (f3_x (col_z a)),
      col_y = float3_of (f3_y (col_x a)) (f3_y (col_y a)) (f3_y (col_z a)),
      col_z = float3_of (f3_z (col_x a)) (f3_z (col_y a)) (f3_z (col_z a))\<rparr>"

definition spec_pose_mul :: "pose \<Rightarrow> pose \<Rightarrow> pose" where
  "spec_pose_mul a b =
     \<lparr>orientation = float3x3_mul (orientation a) (orientation b),
      position = float3_add (position a) (float3x3_apply (orientation a) (position b))\<rparr>"

definition spec_pose_inverse :: "pose \<Rightarrow> pose" where
  "spec_pose_inverse a =
     (let inv = float3x3_transpose (orientation a)
      in \<lparr>orientation = inv, position = float3_scale (float3x3_apply inv (position a)) (fneg f_1)\<rparr>)"

text \<open>The table's own extrinsic pose: its rotation and translation as they are.\<close>

definition pose_of_extrinsics :: "extrinsics \<Rightarrow> pose" where
  "pose_of_extrinsics e = \<lparr>orientation = ex_rotation e, position = ex_translation e\<rparr>"

text \<open>
  The six deferred members of the device, by name, so that a sequence of accesses can
  be stated: \<open>dereference X k c\<close> is the device after one access to member \<open>k\<close>,
  \<open>member_command X k\<close> the command its initialiser issues, and \<open>first_accesses D ks\<close>
  the members that the accesses \<open>ks\<close> reach for the first time when those in \<open>D\<close> have
  been reached before.
\<close>

datatype lazy_member =
    coefficients_member
  | fisheye_intrinsics_member
  | fisheye_extrinsics_member
  | motion_module_extrinsics_member
  | accel_intrinsics_member
  | gyro_intrinsics_member

fun dereference :: "ds_private \<Rightarrow> lazy_member \<Rightarrow> ds5_camera \<Rightarrow> ds5_camera" where
  "dereference X coefficients_member c = snd (coefficients_table_raw X c)"
| "dereference X fisheye_intrinsics_member c = snd (fisheye_intrinsics_raw X c)"
| "dereference X fisheye_extrinsics_member c = snd (fisheye_extrinsics_raw X c)"
| "dereference X motion_module_extrinsics_member c = snd (motion_module_extrinsics_raw X c)"
| "dereference X accel_intrinsics_member c = snd (accel_intrinsics_value X c)"
| "dereference X gyro_intrinsics_member c = snd (gyro_intrinsics_value X c)"

fun dereference_all :: "ds_private \<Rightarrow> lazy_member list \<Rightarrow> ds5_camera \<Rightarrow> ds5_camera" where
  "dereference_all X [] c = c"
| "dereference_all X (k # ks) c = dereference_all X ks (dereference X k c)"

fun member_command :: "ds_private \<Rightarrow> lazy_member \<Rightarrow> command" where
  "member_command X coefficients_member = command1 GETINTCAL (table_id_value X coefficients_table_id)"
| "member_command X fisheye_intrinsics_member = command2 MMER 0x84 0x98"
| "member_command X fisheye_extrinsics_member = command0 GET_EXTRINSICS"
| "member_command X motion_module_extrinsics_member =
     command2 MMER 0x134 (of_nat (sizeof_imu_calibration_table X))"
| "member_command X accel_intrinsics_member =
     command2 MMER 0x134 (of_nat (sizeof_imu_calibration_table X))"
| "member_command X gyro_intrinsics_member =
     command2 MMER 0x134 (of_nat (sizeof_imu_calibration_table X))"

fun member_unevaluated :: "ds5_camera \<Rightarrow> lazy_member \<Rightarrow> bool" where
  "member_unevaluated c coefficients_member = (m_coefficients_table_raw c = Unevaluated)"
| "member_unevaluated c fisheye_intrinsics_member = (m_fisheye_intrinsics_raw c = Unevaluated)"
| "member_unevaluated c fisheye_extrinsics_member = (m_fisheye_extrinsics_raw c = Unevaluated)"
| "member_unevaluated c motion_module_extrinsics_member =
     (m_motion_module_extrinsics_raw c = Unevaluated)"
| "member_unevaluated c accel_intrinsics_member = (m_accel_intrinsics c = Unevaluated)"
| "member_unevaluated c gyro_intrinsics_member = (m_gyro_intrinsics c = Unevaluated)"

definition accessed_members :: "ds5_camera \<Rightarrow> lazy_member set" where
  "accessed_members c = {k. \<not> member_unevaluated c k}"

fun first_accesses :: "lazy_member set \<Rightarrow> lazy_member list \<Rightarrow> lazy_member list" where
  "first_accesses D [] = []"
| "first_accesses D (k # ks) =
     (if k \<in> D then first_accesses D ks else k # first_accesses (insert k D) ks)"

text \<open>
  The four raw tables behind the six deferred members. The coefficients table, the
  fisheye intrinsics table and the fisheye extrinsics table have one member each (lines
  446-448); the motion-module table has three, one for each of the parts that lines
  449-451 take from it, and each of the three calls
  \<^verbatim>\<open>get_motion_module_calibration_table\<close> on its own. \<open>table_command X t\<close> is the
  command that reads table \<open>t\<close> (lines 228-260), \<open>table_views t\<close> the number of deferred
  members that read it, and \<open>times_sent k h\<close> the number of times the command \<open>k\<close> has
  been sent over the channel \<open>h\<close>.
\<close>

datatype raw_table =
    coefficients_raw_table
  | fisheye_intrinsics_raw_table
  | fisheye_extrinsics_raw_table
  | motion_module_raw_table

fun member_table :: "lazy_member \<Rightarrow> raw_table" where
  "member_table coefficients_member = coefficients_raw_table"
| "member_table fisheye_intrinsics_member = fisheye_intrinsics_raw_table"
| "member_table fisheye_extrinsics_member = fisheye_extrinsics_raw_table"
| "member_table motion_module_extrinsics_member = motion_module_raw_table"
| "member_table accel_intrinsics_member = motion_module_raw_table"
| "member_table gyro_intrinsics_member = motion_module_raw_table"

fun table_command :: "ds_private \<Rightarrow> raw_table \<Rightarrow> command" where
  "table_command X coefficients_raw_table =
     command1 GETINTCAL (table_id_value X coefficients_table_id)"
| "table_command X fisheye_intrinsics_raw_table = command2 MMER 0x84 0x98"
| "table_command X fisheye_extrinsics_raw_table = command0 GET_EXTRINSICS"
| "table_command X motion_module_raw_table =
     command2 MMER 0x134 (of_nat (sizeof_imu_calibration_table X))"

definition lazy_members :: "lazy_member list" where
  "lazy_members =
     [coefficients_member, fisheye_intrinsics_member, fisheye_extrinsics_member,
      motion_module_extrinsics_member, accel_intrinsics_member, gyro_intrinsics_member]"

definition table_views :: "raw_table \<Rightarrow> nat" where
  "table_views t = length (filter (\<lambda>k. member_table k = t) lazy_members)"

definition times_sent :: "command \<Rightarrow> hw_monitor \<Rightarrow> nat" where
  "times_sent k h = count_list (sent h) k"

text \<open>\<open>n\<close> calls of \<open>get_intrinsics\<close> in a row: their results in order, and the device after.\<close>

fun repeat_get_intrinsics ::
  "ds_private \<Rightarrow> ds5_camera \<Rightarrow> 32 word \<Rightarrow> stream_profile \<Rightarrow> nat
    \<Rightarrow> (error + rs2_intrinsics) list \<times> ds5_camera" where
  "repeat_get_intrinsics X c subdevice profile 0 = ([], c)"
| "repeat_get_intrinsics X c subdevice profile (Suc n) =
     (case get_intrinsics X c subdevice profile of
        (r, c') \<Rightarrow>
          (case repeat_get_intrinsics X c' subdevice profile n of
             (rs, c'') \<Rightarrow> (r # rs, c'')))"

text \<open>The validated coefficients table of a device: the deferred read, then \<^verbatim>\<open>check_calib\<close>.\<close>

definition coefficients_table_of :: "ds_private \<Rightarrow> ds5_camera \<Rightarrow> error + coefficients_table" where
  "coefficients_table_of X c =
     (case fst (coefficients_table_raw X c) of
        Inl e \<Rightarrow> Inl e
      | Inr raw \<Rightarrow> check_calib_coefficients X raw)"

subsection \<open>A mocked device\<close>

text \<open>
  One instance of the parameters and of the hardware, for evaluating the model on
  concrete inputs. The channel replies to \<^verbatim>\<open>GVD\<close> with the bytes it is given (the mocked
  decoder reads the firmware version from the first four), to \<^verbatim>\<open>UAMG\<close> with one zero byte
  and to every other command with eight zero bytes. The calibration views return fixed
  tables: a baseline of 50, and a motion-module rotation by a quarter turn about the
  \<open>z\<close> axis. Intrinsics exist for the resolution 640 by 480 only.
\<close>

definition f_50 :: float where
  "f_50 = Finite False 13107200 (- 18)"

definition mock_motion_extrinsics :: extrinsics where
  "mock_motion_extrinsics =
     \<lparr>ex_rotation =
        \<lparr>col_x = float3_of f_0 f_1 f_0, col_y = float3_of (fneg f_1) f_0 f_0,
         col_z = float3_of f_0 f_0 f_1\<rparr>,
      ex_translation = float3_of f_1 f_0 f_0\<rparr>"

definition mock_imu_intrinsics :: imu_intrinsics where
  "mock_imu_intrinsics = \<lparr>imu_bias = float3_of f_0 f_0 f_0, imu_scale = float3_of f_1 f_1 f_1\<rparr>"

definition mock_intrinsics :: rs2_intrinsics where
  "mock_intrinsics =
     \<lparr>in_width = 640, in_height = 480, in_ppx = f_50, in_ppy = f_50, in_fx = f_1, in_fy = f_1\<rparr>"

definition mock_private :: ds_private where
  "mock_private =
     \<lparr>table_id_value = (\<lambda>t. case t of coefficients_table_id \<Rightarrow> 25 | fisheye_calibration_id \<Rightarrow> 33),
      sizeof_imu_calibration_table = 8,
      check_calib_imu =
        (\<lambda>raw. Inr \<lparr>imu_to_fisheye = mock_motion_extrinsics,
                      accel_intrinsics = mock_imu_intrinsics,
                      gyro_intrinsics = mock_imu_intrinsics\<rparr>),
      check_calib_coefficients = (\<lambda>raw. Inr \<lparr>baseline = f_50\<rparr>),
      get_intrinsic_by_resolution =
        (\<lambda>raw t w h. if w = 640 \<and> h = 480 then Inr mock_intrinsics
                     else Inl (invalid_value_exception ''intrinsics of resolution not found'')),
      get_fisheye_extrinsics_data = (\<lambda>raw. Inr identity_pose),
      pose_inverse = spec_pose_inverse,
      pose_mul = spec_pose_mul,
      rot_at = (\<lambda>m i j. float3_at (if j = 0 then col_x m else if j = 1 then col_y m else col_z m) i),
      create_motion_intrinsics =
        (\<lambda>i. \<lparr>mdi_data = [], mdi_noise_variances = [], mdi_bias_variances = []\<rparr>),
      device_get_motion_intrinsics = (\<lambda>c s. (Inl (not_implemented_exception ''Not Implemented''), c)),
      device_get_extrinsics =
        (\<lambda>c fs f ts t. (Inl (not_implemented_exception ''Not Implemented''), c)),
      filter_by_mi = (\<lambda>infos k. filter (\<lambda>i. mi i = k) infos),
      gvd_camera_fw_version =
        (\<lambda>b. firmware_version_of (unat (b ! 0)) (unat (b ! 1)) (unat (b ! 2)) (unat (b ! 3))),
      gvd_module_serial = (\<lambda>b. ''serial''),
      gvd_is_camera_locked = (\<lambda>b. False),
      gvd_motion_module_fw_version = (\<lambda>b. ''1.0.0.0''),
      sensor_name_and_hid_profiles = [],
      unset_device_idx = 255,
      RS400_PID = 0x0ad1,
      RS400_MM_PID = 0x0b00,
      RS410_PID = 0x0ad2,
      RS410_MM_PID = 0x0aff,
      RS415_PID = 0x0ad3,
      RS420_MM_PID = 0x0afe,
      RS430_PID = 0x0ad4,
      RS430_MM_PID = 0x0ad5,
      RS430_MM_RGB_PID = 0x0b01,
      RS435_RGB_PID = 0x0b07\<rparr>"

definition mock_channel :: "byte list \<Rightarrow> hw_monitor" where
  "mock_channel gvd =
     \<lparr>respond = (\<lambda>history c. if cmd c = GVD then Inr gvd
                              else if cmd c = UAMG then Inr [0]
                              else Inr [0, 0, 0, 0, 0, 0, 0, 0]),
      sent = []\<rparr>"

text \<open>
  A device with a depth, a fisheye and a motion-module sub-device (indices 0, 1, 2)
  whose deferred members have not been accessed.
\<close>

definition mock_camera :: ds5_camera where
  "mock_camera =
     \<lparr>m_endpoints = [new_endpoint uvc_endpoint, new_endpoint uvc_endpoint, new_endpoint hid_endpoint],
      m_endpoint_info = [],
      m_depth_device_idx = 0,
      m_fisheye_device_idx = 1,
      m_motion_module_device_idx = 2,
      m_color_device_idx = 255,
      m_hw_monitor = mock_channel [5, 6, 3, 0],
      m_coefficients_table_raw = Unevaluated,
      m_fisheye_intrinsics_raw = Unevaluated,
      m_fisheye_extrinsics_raw = Unevaluated,
      m_motion_module_extrinsics_raw = Unevaluated,
      m_accel_intrinsics = Unevaluated,
      m_gyro_intrinsics = Unevaluated,
      m_polling_error_handler = None\<rparr>"

definition mock_profile :: stream_profile where
  "mock_profile = \<lparr>sp_stream = RS2_STREAM_DEPTH, sp_width = 640, sp_height = 480, sp_fps = 30\<rparr>"

definition mock_device_info :: "16 word \<Rightarrow> 32 word \<Rightarrow> uvc_device_info" where
  "mock_device_info p m = \<lparr>pid = p, mi = m, device_path = ''/dev/video''\<rparr>"

definition mock_hid_info :: hid_device_info where
  "mock_hid_info = \<lparr>hid_device_path = ''/dev/iio''\<rparr>"

section \<open>Properties\<close>

subsection \<open>Notification decoding\<close>

text \<open>
  Claim C1. The decoder is a total function of the raw code: every notification it
  returns has the category hardware-error and carries the code; code 0 gives
  "Success" at severity error, each of the three fault codes gives its own message at
  severity error, and every other code gives "Unknown error!" at severity none. The
  fault codes are enumerators, so they are distinct and none of them is 0.
\<close>

theorem decode_total:
  assumes "distinct [0, hot_laser_power_reduce T, hot_laser_disable T, flag_B_laser_disable T]"
  shows "category (ds5_notification_decoder_decode T v) = RS2_NOTIFICATION_CATEGORY_HARDWARE_ERROR
    \<and> raw_code (ds5_notification_decoder_decode T v) = v
    \<and> (v = 0 \<longrightarrow>
          description (ds5_notification_decoder_decode T v) = ''Success''
          \<and> severity (ds5_notification_decoder_decode T v) = RS2_LOG_SEVERITY_ERROR)
    \<and> (v = hot_laser_power_reduce T \<longrightarrow>
          description (ds5_notification_decoder_decode T v) = ''Hot laser power reduce''
          \<and> severity (ds5_notification_decoder_decode T v) = RS2_LOG_SEVERITY_ERROR)
    \<and> (v = hot_laser_disable T \<longrightarrow>
          description (ds5_notification_decoder_decode T v) = ''Hot laser disable''
          \<and> severity (ds5_notification_decoder_decode T v) = RS2_LOG_SEVERITY_ERROR)
    \<and> (v = flag_B_laser_disable T \<longrightarrow>
          description (ds5_notification_decoder_decode T v) = ''Flag B laser disable''
          \<and> severity (ds5_notification_decoder_decode T v) = RS2_LOG_SEVERITY_ERROR)
    \<and> (v \<notin> {0, hot_laser_power_reduce T, hot_laser_disable T, flag_B_laser_disable T} \<longrightarrow>
          description (ds5_notification_decoder_decode T v) = ''Unknown error!''
          \<and> severity (ds5_notification_decoder_decode T v) = RS2_LOG_SEVERITY_NONE)"
  using assms by (auto simp: ds5_notification_decoder_decode_def)

theorem decode_total_witness:
  "distinct [0, hot_laser_power_reduce notification_codes_123,
      hot_laser_disable notification_codes_123, flag_B_laser_disable notification_codes_123]
   \<and> category (ds5_notification_decoder_decode notification_codes_123 9999) =
       RS2_NOTIFICATION_CATEGORY_HARDWARE_ERROR
   \<and> raw_code (ds5_notification_decoder_decode notification_codes_123 9999) = 9999
   \<and> description (ds5_notification_decoder_decode notification_codes_123 9999) = ''Unknown error!''
   \<and> severity (ds5_notification_decoder_decode notification_codes_123 9999) = RS2_LOG_SEVERITY_NONE
   \<and> description (ds5_notification_decoder_decode notification_codes_123 0) = ''Success''
   \<and> severity (ds5_notification_decoder_decode notification_codes_123 0) = RS2_LOG_SEVERITY_ERROR
   \<and> description (ds5_notification_decoder_decode notification_codes_123 1) = ''Hot laser power reduce''
   \<and> description (ds5_notification_decoder_decode notification_codes_123 2) = ''Hot laser disable''
   \<and> description (ds5_notification_decoder_decode notification_codes_123 3) = ''Flag B laser disable''
   \<and> severity (ds5_notification_decoder_decode notification_codes_123 3) = RS2_LOG_SEVERITY_ERROR"
proof -
  have d: "distinct [0, hot_laser_power_reduce notification_codes_123,
      hot_laser_disable notification_codes_123, flag_B_laser_disable notification_codes_123]"
    by (simp add: notification_codes_123_def)
  show ?thesis
    using d decode_total [OF d, of 9999] decode_total [OF d, of 0] decode_total [OF d, of 1]
      decode_total [OF d, of 2] decode_total [OF d, of 3]
    by (simp add: notification_codes_123_def)
qed

subsection \<open>The hardware-backed region-of-interest controller\<close>

lemma uint_word_cat_8_8:
  "uint (word_cat (hi::8 word) (lo::8 word) :: 16 word) = uint lo + 256 * uint hi"
proof -
  have lo: "0 \<le> uint lo" "uint lo < 256" using uint_bounded [of lo] by simp_all
  have hi: "0 \<le> uint hi" "uint hi < 256" using uint_bounded [of hi] by simp_all
  have tl: "take_bit 8 (uint lo) = uint lo"
    using lo by (simp add: take_bit_int_eq_self)
  have "uint (word_cat hi lo :: 16 word) = take_bit 16 (concat_bit 8 (uint lo) (uint hi))"
    by (simp add: word_cat_eq' uint_word_of_int_eq)
  also have "concat_bit 8 (uint lo) (uint hi) = uint lo + 256 * uint hi"
    by (simp add: concat_bit_eq tl push_bit_eq_mult)
  also have "take_bit 16 (uint lo + 256 * uint hi) = uint lo + 256 * uint hi"
    using lo hi by (intro take_bit_int_eq_self) auto
  finally show ?thesis .
qed

lemma uint_words: "uint (words res i) = le16_value res i"
  by (simp add: words_def le16_value_def uint_word_cat_8_8)

lemma ucast_words: "(ucast (words res i) :: int32) = word_of_int (le16_value res i)"
  by (simp add: ucast_eq uint_words)

lemma sint_ucast_words: "sint (ucast (words res i) :: int32) = le16_value res i"
proof -
  have b0: "0 \<le> uint (words res i)" by simp
  have b: "uint (words res i) < 65536"
    using uint_bounded [of "words res i"] by simp
  have "sint (ucast (words res i) :: int32) = signed_take_bit 31 (uint (words res i))"
    by (simp add: sint_uint uint_up_ucast is_up)
  also have "\<dots> = uint (words res i)"
  proof (rule signed_take_bit_int_eq_self)
    show "- (2 ^ 31) \<le> uint (words res i)" by (rule order_trans [of _ 0]) (simp_all add: b0)
    show "uint (words res i) < 2 ^ 31" using b by simp
  qed
  finally show ?thesis by (simp add: uint_words)
qed

lemma roi_get_decodes:
  "fst (ds5_auto_exposure_roi_method_get hwm) =
     (case respond hwm (sent hwm) (command0 GETAEROI) of
        Inl e \<Rightarrow> Inl e
      | Inr res \<Rightarrow>
          if length res < 8 then Inl (runtime_error ''Invalid result size!'')
          else Inr (spec_decode_roi res))"
  by (simp add: ds5_auto_exposure_roi_method_get_def send_def spec_decode_roi_def ucast_words
      split: sum.splits)

lemma roi_get_example:
  "fst (ds5_auto_exposure_roi_method_get
         \<lparr>respond = (\<lambda>h c. Inr [10, 0, 20, 0, 30, 0, 40, 0]), sent = []\<rparr>)
     = Inr \<lparr>min_x = 30, min_y = 10, max_x = 40, max_y = 20\<rparr>"
  by (simp add: ds5_auto_exposure_roi_method_get_def send_def words_def)

lemma roi_set_command:
  "sent (snd (ds5_auto_exposure_roi_method_set hwm roi)) =
     sent hwm @ [\<lparr>cmd = SETAEROI, param1 = min_y roi, param2 = max_y roi,
                   param3 = min_x roi, param4 = max_x roi\<rparr>]"
  by (simp add: ds5_auto_exposure_roi_method_set_def send_def command0_def Let_def
      split: sum.splits)

text \<open>
  Claim C2. Whatever the channel replies to the query command: a failure of the
  channel is passed on; a reply of fewer than 8 bytes makes \<open>get\<close> fail with the
  runtime error "Invalid result size!"; any other reply is decoded as its first four
  16-bit little-endian values, in the order \<open>min_y\<close>, \<open>max_y\<close>, \<open>min_x\<close>, \<open>max_x\<close>, each
  field holding the value itself (between 0 and 65535). The reply
  \<open>[10,0,20,0,30,0,40,0]\<close> decodes to \<open>min_y = 10\<close>, \<open>max_y = 20\<close>, \<open>min_x = 30\<close>,
  \<open>max_x = 40\<close>. \<open>set\<close> issues exactly one command, \<open>SETAEROI\<close> with the parameters
  \<open>min_y\<close>, \<open>max_y\<close>, \<open>min_x\<close>, \<open>max_x\<close> in this order.
\<close>

theorem roi_hardware_controller:
  "fst (ds5_auto_exposure_roi_method_get hwm) =
     (case respond hwm (sent hwm) (command0 GETAEROI) of
        Inl e \<Rightarrow> Inl e
      | Inr res \<Rightarrow>
          if length res < 8 then Inl (runtime_error ''Invalid result size!'')
          else Inr (spec_decode_roi res))
   \<and> sint (word_of_int (le16_value res i) :: int32) = le16_value res i
   \<and> fst (ds5_auto_exposure_roi_method_get
          \<lparr>respond = (\<lambda>h c. Inr [10, 0, 20, 0, 30, 0, 40, 0]), sent = []\<rparr>)
       = Inr \<lparr>min_x = 30, min_y = 10, max_x = 40, max_y = 20\<rparr>
   \<and> sent (snd (ds5_auto_exposure_roi_method_set hwm roi)) =
       sent hwm @ [\<lparr>cmd = SETAEROI, param1 = min_y roi, param2 = max_y roi,
                     param3 = min_x roi, param4 = max_x roi\<rparr>]"
  using roi_get_decodes [of hwm] sint_ucast_words [of res i] roi_get_example
    roi_set_command [of hwm roi]
  by (simp only: ucast_words simp_thms)

subsection \<open>The software-backed region-of-interest controller\<close>

text \<open>
  Claim C4. For every region of interest, \<open>get\<close> after \<open>set roi\<close> returns exactly \<open>roi\<close>,
  and \<open>set\<close> hands \<open>roi\<close> to the auto-exposure mechanism as its next metering window;
  before any \<open>set\<close>, \<open>get\<close> returns the zero rectangle.
\<close>

theorem roi_software_controller:
  "fisheye_auto_exposure_roi_method_get (fisheye_auto_exposure_roi_method_set this roi) = roi
   \<and> ae_roi_updates (m_auto_exposure (fisheye_auto_exposure_roi_method_set this roi)) =
       ae_roi_updates (m_auto_exposure this) @ [roi]
   \<and> fisheye_auto_exposure_roi_method_get (fisheye_auto_exposure_roi_method_new ae) =
       \<lparr>min_x = 0, min_y = 0, max_x = 0, max_y = 0\<rparr>"
  by (simp add: fisheye_auto_exposure_roi_method_get_def fisheye_auto_exposure_roi_method_set_def
      fisheye_auto_exposure_roi_method_new_def update_auto_exposure_roi_def Let_def)

subsection \<open>Evaluation rules\<close>

lemma bitlen_0 [simp]: "bitlen 0 = 0"
  by (simp add: bitlen.simps)

lemma bitlen_1 [simp]: "bitlen 1 = 1"
  by (simp add: bitlen.simps)

lemma bitlen_One [simp]: "bitlen (Suc 0) = 1"
  by (simp add: bitlen.simps)

lemma bitlen_Bit0 [simp]: "bitlen (numeral (Num.Bit0 n)) = Suc (bitlen (numeral n))"
  by (subst bitlen.simps) simp

lemma bitlen_Bit1 [simp]: "bitlen (numeral (Num.Bit1 n)) = Suc (bitlen (numeral n))"
  by (subst bitlen.simps) simp

lemmas float_eval = f_0_001_def f_0_def f_1_def f_50_def round_binary32_def round_magnitude_def
  signed_significand_def Let_def

lemmas pose_eval = spec_pose_inverse_def spec_pose_mul_def identity_pose_def float3x3_transpose_def
  float3_of_def float3_scale_def float3x3_apply_def float3x3_mul_def float3_add_def float3_at_def
  pose_of_extrinsics_def

lemmas mock_eval = mock_camera_def mock_private_def mock_channel_def mock_motion_extrinsics_def
  mock_imu_intrinsics_def

lemma mock_count: "get_endpoints_count mock_camera = 3"
  by (simp add: get_endpoints_count_def mock_camera_def)

lemma mock_idx:
  "m_depth_device_idx mock_camera = 0" "m_fisheye_device_idx mock_camera = 1"
  "m_motion_module_device_idx mock_camera = 2"
  by (simp_all add: mock_camera_def)

lemma mock_unevaluated: "member_unevaluated mock_camera k"
  by (cases k) (simp_all add: mock_camera_def)

lemma mock_accessed: "accessed_members mock_camera = {}"
  by (simp add: accessed_members_def mock_unevaluated)

subsection \<open>Deferred reads are memoized\<close>

lemma sent_send: "sent (snd (send h c)) = sent h @ [c]"
  by (simp add: send_def)

lemma sent_get_motion_module_calibration_table:
  "sent (snd (get_motion_module_calibration_table X h)) =
     sent h @ [command2 MMER 0x134 (of_nat (sizeof_imu_calibration_table X))]"
  by (simp add: get_motion_module_calibration_table_def send_def split: sum.splits)

lemma snd_on_result: "snd (on_result f r) = snd r"
  by (simp add: on_result_def split: prod.splits sum.splits)

lemma force_Unevaluated:
  "force f Unevaluated h =
     (fst (f h), (case fst (f h) of Inr v \<Rightarrow> Evaluated v | Inl e \<Rightarrow> Failed e), snd (f h))"
  by (simp add: force_def split: prod.splits sum.splits)

lemma force_accessed:
  "l \<noteq> Unevaluated \<Longrightarrow>
     force f l h = ((case l of Evaluated v \<Rightarrow> Inr v | Failed e \<Rightarrow> Inl e), l, h)"
  by (cases l) (simp_all add: force_def)

lemma force_again: "force f l h = (r, l', h') \<Longrightarrow> force f l' h' = (r, l', h')"
  by (cases l) (auto simp: force_def split: prod.splits sum.splits)

lemmas deref_defs = coefficients_table_raw_def fisheye_intrinsics_raw_def
  fisheye_extrinsics_raw_def motion_module_extrinsics_raw_def accel_intrinsics_value_def
  gyro_intrinsics_value_def

lemma dereference_accessed: "\<not> member_unevaluated c k \<Longrightarrow> dereference X k c = c"
  by (cases k) (simp_all add: deref_defs force_accessed)

lemma dereference_sent:
  "member_unevaluated c k \<Longrightarrow>
     sent (m_hw_monitor (dereference X k c)) = sent (m_hw_monitor c) @ [member_command X k]"
  by (cases k)
    (simp_all add: deref_defs force_Unevaluated get_raw_calibration_table_def
      get_raw_fisheye_intrinsics_table_def get_raw_fisheye_extrinsics_table_def sent_send
      snd_on_result sent_get_motion_module_calibration_table)

lemma dereference_member:
  "member_unevaluated c k \<Longrightarrow>
     member_unevaluated (dereference X k c) j = (j \<noteq> k \<and> member_unevaluated c j)"
  by (cases k; cases j)
    (simp_all add: deref_defs force_Unevaluated split: sum.splits)

lemma accessed_dereference:
  "accessed_members (dereference X k c) = insert k (accessed_members c)"
proof (cases "member_unevaluated c k")
  case True
  then show ?thesis by (auto simp: accessed_members_def dereference_member)
next
  case False
  then show ?thesis by (auto simp: accessed_members_def dereference_accessed)
qed

lemma dereference_all_sent:
  "sent (m_hw_monitor (dereference_all X ks c)) =
     sent (m_hw_monitor c) @ map (member_command X) (first_accesses (accessed_members c) ks)"
proof (induction ks arbitrary: c)
  case Nil
  show ?case by simp
next
  case (Cons k ks)
  show ?case
  proof (cases "member_unevaluated c k")
    case True
    then have "k \<notin> accessed_members c" by (simp add: accessed_members_def)
    then show ?thesis
      using Cons [of "dereference X k c"] True
      by (simp add: accessed_dereference dereference_sent)
  next
    case False
    then have "k \<in> accessed_members c" by (simp add: accessed_members_def)
    then show ?thesis
      using Cons [of c] False by (simp add: dereference_accessed)
  qed
qed

lemma first_accesses_set: "set (first_accesses D ks) = set ks - D"
  by (induction ks arbitrary: D) auto

lemma first_accesses_distinct: "distinct (first_accesses D ks)"
  by (induction ks arbitrary: D) (auto simp: first_accesses_set)

lemma member_command_table: "member_command X k = table_command X (member_table k)"
  by (cases k) simp_all

lemma table_command_inj: "table_command X t = table_command X u \<longleftrightarrow> t = u"
  by (cases t; cases u) (simp_all add: command0_def command1_def command2_def)

lemma table_views_values:
  "table_views coefficients_raw_table = 1" "table_views fisheye_intrinsics_raw_table = 1"
  "table_views fisheye_extrinsics_raw_table = 1" "table_views motion_module_raw_table = 3"
  by (simp_all add: table_views_def lazy_members_def)

lemma lazy_members_all: "k \<in> set lazy_members"
  by (cases k) (simp_all add: lazy_members_def)

lemma lazy_members_distinct: "distinct lazy_members"
  by (simp add: lazy_members_def)

lemma count_list_map_filter: "count_list (map f xs) y = length (filter (\<lambda>x. f x = y) xs)"
  by (induction xs) simp_all

lemma distinct_filter_bound:
  assumes "distinct xs"
  shows "length (filter (\<lambda>k. member_table k = t) xs) \<le> table_views t"
proof -
  have "distinct (filter (\<lambda>k. member_table k = t) xs)"
    using assms by simp
  then have "length (filter (\<lambda>k. member_table k = t) xs) =
      card (set (filter (\<lambda>k. member_table k = t) xs))"
    by (rule distinct_card [symmetric])
  also have "\<dots> \<le> card (set (filter (\<lambda>k. member_table k = t) lazy_members))"
    by (rule card_mono, rule finite_set, auto simp: lazy_members_all)
  also have "\<dots> = table_views t"
    unfolding table_views_def
    by (rule distinct_card) (simp add: lazy_members_distinct)
  finally show ?thesis .
qed

lemma dereference_all_times_sent:
  "times_sent (table_command X t) (m_hw_monitor (dereference_all X ks c)) \<le>
     times_sent (table_command X t) (m_hw_monitor c) + table_views t"
proof -
  have "count_list (map (member_command X) (first_accesses (accessed_members c) ks))
          (table_command X t) =
        length (filter (\<lambda>k. member_table k = t) (first_accesses (accessed_members c) ks))"
    by (simp add: count_list_map_filter member_command_table table_command_inj)
  then show ?thesis
    using distinct_filter_bound [OF first_accesses_distinct, of t "accessed_members c" ks]
    by (simp add: times_sent_def dereference_all_sent)
qed

lemma coefficients_table_raw_again:
  "coefficients_table_raw X (snd (coefficients_table_raw X c)) =
     (fst (coefficients_table_raw X c), snd (coefficients_table_raw X c))"
proof -
  obtain r l h where f: "force (\<lambda>h. get_raw_calibration_table X h coefficients_table_id)
      (m_coefficients_table_raw c) (m_hw_monitor c) = (r, l, h)"
    by (metis prod_cases3)
  show ?thesis
    using f force_again [OF f] by (simp add: coefficients_table_raw_def)
qed

lemma fisheye_intrinsics_raw_again:
  "fisheye_intrinsics_raw X (snd (fisheye_intrinsics_raw X c)) =
     (fst (fisheye_intrinsics_raw X c), snd (fisheye_intrinsics_raw X c))"
proof -
  obtain r l h where f: "force get_raw_fisheye_intrinsics_table
      (m_fisheye_intrinsics_raw c) (m_hw_monitor c) = (r, l, h)"
    by (metis prod_cases3)
  show ?thesis
    using f force_again [OF f] by (simp add: fisheye_intrinsics_raw_def)
qed

lemma coefficients_table_raw_frame:
  "m_endpoints (snd (coefficients_table_raw X c)) = m_endpoints c
   \<and> m_depth_device_idx (snd (coefficients_table_raw X c)) = m_depth_device_idx c
   \<and> m_fisheye_device_idx (snd (coefficients_table_raw X c)) = m_fisheye_device_idx c"
  by (simp add: coefficients_table_raw_def split: prod.splits)

lemma fisheye_intrinsics_raw_frame:
  "m_endpoints (snd (fisheye_intrinsics_raw X c)) = m_endpoints c
   \<and> m_depth_device_idx (snd (fisheye_intrinsics_raw X c)) = m_depth_device_idx c
   \<and> m_fisheye_device_idx (snd (fisheye_intrinsics_raw X c)) = m_fisheye_device_idx c"
  by (simp add: fisheye_intrinsics_raw_def split: prod.splits)

lemma get_intrinsics_again:
  "get_intrinsics X (snd (get_intrinsics X c sub p)) sub p =
     (fst (get_intrinsics X c sub p), snd (get_intrinsics X c sub p))"
proof -
  consider (out) "unat sub \<ge> get_endpoints_count c"
    | (depth) "unat sub < get_endpoints_count c" "sub = m_depth_device_idx c"
    | (fisheye) "unat sub < get_endpoints_count c" "sub \<noteq> m_depth_device_idx c"
        "sub = m_fisheye_device_idx c"
    | (other) "unat sub < get_endpoints_count c" "sub \<noteq> m_depth_device_idx c"
        "sub \<noteq> m_fisheye_device_idx c"
    by linarith
  then show ?thesis
  proof cases
    case out
    then show ?thesis by (simp add: get_intrinsics_def)
  next
    case depth
    obtain r c' where rc: "coefficients_table_raw X c = (r, c')" by (cases "coefficients_table_raw X c")
    have again: "coefficients_table_raw X c' = (r, c')"
      using coefficients_table_raw_again [of X c] rc by simp
    have frame: "m_endpoints c' = m_endpoints c" "m_depth_device_idx c' = m_depth_device_idx c"
      using coefficients_table_raw_frame [of X c] rc by simp_all
    show ?thesis
      using depth rc again frame
      by (cases r) (simp_all add: get_intrinsics_def get_endpoints_count_def)
  next
    case fisheye
    obtain r c' where rc: "fisheye_intrinsics_raw X c = (r, c')" by (cases "fisheye_intrinsics_raw X c")
    have again: "fisheye_intrinsics_raw X c' = (r, c')"
      using fisheye_intrinsics_raw_again [of X c] rc by simp
    have frame: "m_endpoints c' = m_endpoints c" "m_depth_device_idx c' = m_depth_device_idx c"
      "m_fisheye_device_idx c' = m_fisheye_device_idx c"
      using fisheye_intrinsics_raw_frame [of X c] rc by simp_all
    show ?thesis
      using fisheye rc again frame
      by (cases r) (simp_all add: get_intrinsics_def get_endpoints_count_def)
  next
    case other
    then show ?thesis by (simp add: get_intrinsics_def)
  qed
qed

lemma repeat_stable:
  "get_intrinsics X c sub p = (r, c) \<Longrightarrow> repeat_get_intrinsics X c sub p n = (replicate n r, c)"
  by (induction n) simp_all

lemma repeat_get_intrinsics_Suc:
  "repeat_get_intrinsics X c sub p (Suc n) =
     (replicate (Suc n) (fst (get_intrinsics X c sub p)), snd (get_intrinsics X c sub p))"
proof -
  obtain r c' where rc: "get_intrinsics X c sub p = (r, c')" by (cases "get_intrinsics X c sub p")
  have "get_intrinsics X c' sub p = (r, c')"
    using get_intrinsics_again [of X c sub p] rc by simp
  then have "repeat_get_intrinsics X c' sub p n = (replicate n r, c')"
    by (rule repeat_stable)
  then show ?thesis using rc by simp
qed

lemma snd_get_intrinsics_depth:
  "unat sub < get_endpoints_count c \<Longrightarrow> sub = m_depth_device_idx c \<Longrightarrow>
     snd (get_intrinsics X c sub p) = dereference X coefficients_member c"
  by (cases "coefficients_table_raw X c") (simp add: get_intrinsics_def split: sum.splits)

lemma snd_get_intrinsics_fisheye:
  "unat sub < get_endpoints_count c \<Longrightarrow> sub \<noteq> m_depth_device_idx c \<Longrightarrow>
     sub = m_fisheye_device_idx c \<Longrightarrow>
     snd (get_intrinsics X c sub p) = dereference X fisheye_intrinsics_member c"
  by (cases "fisheye_intrinsics_raw X c") (simp add: get_intrinsics_def split: sum.splits)

lemma get_intrinsics_sent:
  assumes "unat sub < get_endpoints_count c"
    and "(sub = m_depth_device_idx c \<and> k = coefficients_member)
       \<or> (sub \<noteq> m_depth_device_idx c \<and> sub = m_fisheye_device_idx c \<and> k = fisheye_intrinsics_member)"
    and "member_unevaluated c k"
  shows "sent (m_hw_monitor (snd (get_intrinsics X c sub p))) =
     sent (m_hw_monitor c) @ [member_command X k]"
proof -
  have "snd (get_intrinsics X c sub p) = dereference X k c"
    using assms(1,2) snd_get_intrinsics_depth [of sub c X p] snd_get_intrinsics_fisheye [of sub c X p]
    by blast
  then show ?thesis
    using dereference_sent [OF assms(3), of X] by simp
qed

text \<open>
  Claim C5, amended to count per deferred member. Whatever sequence \<open>ks\<close> of accesses
  to the six deferred members is made on a device, the commands issued are exactly one
  per member that is reached for the first time, in the order of the first accesses, and
  no member is reached for the first time twice: each member's command is issued at most
  once however often the member is accessed. A member's command is the command of its
  table, so the accesses add at most one read of the coefficients table, one of the
  fisheye intrinsics table and one of the fisheye extrinsics table, and at most three
  reads of the motion-module table, one for each of its three members. And when a call
  of \<open>get_intrinsics\<close> on the depth or the fisheye sub-device succeeds with \<open>v\<close> on a
  device whose table has not been read, any number of repeated calls return \<open>v\<close> every
  time, and over all of them the table's command is issued exactly once.
\<close>

theorem calibration_reads_memoized:
  "sent (m_hw_monitor (dereference_all X ks c)) =
     sent (m_hw_monitor c) @ map (member_command X) (first_accesses (accessed_members c) ks)
   \<and> distinct (first_accesses (accessed_members c) ks)
   \<and> set (first_accesses (accessed_members c) ks) = set ks - accessed_members c
   \<and> member_command X j = table_command X (member_table j)
   \<and> times_sent (table_command X t) (m_hw_monitor (dereference_all X ks c)) \<le>
       times_sent (table_command X t) (m_hw_monitor c) + table_views t
   \<and> table_views coefficients_raw_table = 1
   \<and> table_views fisheye_intrinsics_raw_table = 1
   \<and> table_views fisheye_extrinsics_raw_table = 1
   \<and> table_views motion_module_raw_table = 3
   \<and> (unat sub < get_endpoints_count c
       \<and> ((sub = m_depth_device_idx c \<and> k = coefficients_member)
          \<or> (sub \<noteq> m_depth_device_idx c \<and> sub = m_fisheye_device_idx c
               \<and> k = fisheye_intrinsics_member))
       \<and> member_unevaluated c k
       \<and> fst (get_intrinsics X c sub p) = Inr v
      \<longrightarrow> fst (repeat_get_intrinsics X c sub p (Suc n)) = replicate (Suc n) (Inr v)
          \<and> sent (m_hw_monitor (snd (repeat_get_intrinsics X c sub p (Suc n)))) =
              sent (m_hw_monitor c) @ [member_command X k])"
proof (intro conjI impI)
  show "sent (m_hw_monitor (dereference_all X ks c)) =
     sent (m_hw_monitor c) @ map (member_command X) (first_accesses (accessed_members c) ks)"
    by (rule dereference_all_sent)
  show "distinct (first_accesses (accessed_members c) ks)"
    by (rule first_accesses_distinct)
  show "set (first_accesses (accessed_members c) ks) = set ks - accessed_members c"
    by (rule first_accesses_set)
  show "member_command X j = table_command X (member_table j)"
    by (rule member_command_table)
  show "times_sent (table_command X t) (m_hw_monitor (dereference_all X ks c)) \<le>
       times_sent (table_command X t) (m_hw_monitor c) + table_views t"
    by (rule dereference_all_times_sent)
  show "table_views coefficients_raw_table = 1" "table_views fisheye_intrinsics_raw_table = 1"
    "table_views fisheye_extrinsics_raw_table = 1" "table_views motion_module_raw_table = 3"
    by (rule table_views_values)+
next
  assume h: "unat sub < get_endpoints_count c
       \<and> ((sub = m_depth_device_idx c \<and> k = coefficients_member)
          \<or> (sub \<noteq> m_depth_device_idx c \<and> sub = m_fisheye_device_idx c
               \<and> k = fisheye_intrinsics_member))
       \<and> member_unevaluated c k
       \<and> fst (get_intrinsics X c sub p) = Inr v"
  then show "fst (repeat_get_intrinsics X c sub p (Suc n)) = replicate (Suc n) (Inr v)"
    by (simp only: repeat_get_intrinsics_Suc fst_conv)
  from h show "sent (m_hw_monitor (snd (repeat_get_intrinsics X c sub p (Suc n)))) =
              sent (m_hw_monitor c) @ [member_command X k]"
    using get_intrinsics_sent [of sub c k X p] by (simp only: repeat_get_intrinsics_Suc snd_conv)
qed

lemma mock_get_intrinsics:
  "fst (get_intrinsics mock_private mock_camera 0 mock_profile) = Inr mock_intrinsics"
  by (simp add: get_intrinsics_def get_endpoints_count_def coefficients_table_raw_def force_def
      get_raw_calibration_table_def send_def command1_def mock_eval mock_profile_def)

theorem calibration_reads_memoized_witness:
  "unat (0 :: 32 word) < get_endpoints_count mock_camera
   \<and> 0 = m_depth_device_idx mock_camera
   \<and> member_unevaluated mock_camera coefficients_member
   \<and> fst (get_intrinsics mock_private mock_camera 0 mock_profile) = Inr mock_intrinsics
   \<and> fst (repeat_get_intrinsics mock_private mock_camera 0 mock_profile (Suc 2)) =
       [Inr mock_intrinsics, Inr mock_intrinsics, Inr mock_intrinsics]
   \<and> sent (m_hw_monitor (snd (repeat_get_intrinsics mock_private mock_camera 0 mock_profile (Suc 2)))) =
       [command1 GETINTCAL 25]
   \<and> sent (m_hw_monitor (dereference_all mock_private
        [accel_intrinsics_member, gyro_intrinsics_member, coefficients_member,
         accel_intrinsics_member, coefficients_member] mock_camera)) =
       [command2 MMER 0x134 8, command2 MMER 0x134 8, command1 GETINTCAL 25]"
proof -
  have h: "unat (0 :: 32 word) < get_endpoints_count mock_camera"
    "0 = m_depth_device_idx mock_camera"
    by (simp_all add: mock_count mock_idx)
  have u: "member_unevaluated mock_camera coefficients_member"
    by (rule mock_unevaluated)
  have s: "sent (m_hw_monitor mock_camera) = []"
    by (simp add: mock_camera_def mock_channel_def)
  have c: "table_id_value mock_private coefficients_table_id = 25"
    "sizeof_imu_calibration_table mock_private = 8"
    by (simp_all add: mock_private_def)
  show ?thesis
    using h u mock_get_intrinsics
      calibration_reads_memoized [where X = mock_private
        and ks = "[accel_intrinsics_member, gyro_intrinsics_member, coefficients_member,
          accel_intrinsics_member, coefficients_member]"
        and c = mock_camera and sub = 0 and k = coefficients_member and p = mock_profile
        and v = mock_intrinsics and n = 2 and j = coefficients_member
        and t = coefficients_raw_table]
    by (simp add: s c mock_accessed eval_nat_numeral)
qed

subsection \<open>Sub-device indices that are out of range or not served\<close>

lemma get_device_position_out_of_range:
  "unat sub \<ge> get_endpoints_count c \<Longrightarrow>
     get_device_position X c sub = (Inl (unsupported_subdevice sub), c)"
  by (subst get_device_position.simps) simp

lemma get_device_position_not_implemented:
  "unat sub < get_endpoints_count c \<Longrightarrow> sub \<noteq> m_fisheye_device_idx c \<Longrightarrow>
   sub \<noteq> m_motion_module_device_idx c \<Longrightarrow>
     get_device_position X c sub = (Inl (not_implemented_exception ''Not Implemented''), c)"
  by (subst get_device_position.simps) simp

lemma get_device_position_fisheye:
  "unat sub < get_endpoints_count c \<Longrightarrow> sub = m_fisheye_device_idx c \<Longrightarrow>
     get_device_position X c sub =
       (case fisheye_extrinsics_raw X c of
           (Inl e, c') \<Rightarrow> (Inl e, c')
         | (Inr raw, c') \<Rightarrow>
             (case get_fisheye_extrinsics_data X raw of
                Inl e \<Rightarrow> (Inl e, c')
              | Inr extr \<Rightarrow> (Inr (pose_inverse X extr), c')))"
  by (subst get_device_position.simps) simp

lemma get_device_position_motion_module:
  "unat sub < get_endpoints_count c \<Longrightarrow> sub \<noteq> m_fisheye_device_idx c \<Longrightarrow>
   sub = m_motion_module_device_idx c \<Longrightarrow>
     get_device_position X c sub =
       (case get_device_position X c (m_fisheye_device_idx c) of
           (Inl e, c1) \<Rightarrow> (Inl e, c1)
         | (Inr fe_pose, c1) \<Rightarrow>
             (case motion_module_extrinsics_raw X c1 of
                (Inl e, c2) \<Rightarrow> (Inl e, c2)
              | (Inr motion_extr, c2) \<Rightarrow>
                  (Inr (pose_mul X fe_pose (motion_module_ex X motion_extr)), c2)))"
  by (subst get_device_position.simps) simp

text \<open>
  Claim C10. For a sub-device index that is not below the number of endpoints, both
  \<open>get_intrinsics\<close> and \<open>get_device_position\<close> throw the invalid-value exception that
  names the index, and leave the device as it is. For an index in range,
  \<open>get_intrinsics\<close> throws the not-implemented exception unless the index is the depth
  or the fisheye index, and \<open>get_device_position\<close> throws it unless the index is the
  fisheye or the motion-module index (so also for the depth index).
\<close>

theorem subdevice_errors:
  "(unat sub \<ge> get_endpoints_count c \<longrightarrow>
      get_intrinsics X c sub p =
        (Inl (invalid_value_exception
               (''Requested subdevice '' @ string_of_nat (unat sub) @ '' is unsupported.'')), c)
      \<and> get_device_position X c sub =
        (Inl (invalid_value_exception
               (''Requested subdevice '' @ string_of_nat (unat sub) @ '' is unsupported.'')), c))
   \<and> (unat sub < get_endpoints_count c \<and> sub \<noteq> m_depth_device_idx c
        \<and> sub \<noteq> m_fisheye_device_idx c \<longrightarrow>
      get_intrinsics X c sub p = (Inl (not_implemented_exception ''Not Implemented''), c))
   \<and> (unat sub < get_endpoints_count c \<and> sub \<noteq> m_fisheye_device_idx c
        \<and> sub \<noteq> m_motion_module_device_idx c \<longrightarrow>
      get_device_position X c sub = (Inl (not_implemented_exception ''Not Implemented''), c))"
  using get_device_position_out_of_range [of c sub X]
    get_device_position_not_implemented [of sub c X]
  by (simp add: get_intrinsics_def unsupported_subdevice_def)

theorem subdevice_errors_witness:
  "unat (7 :: 32 word) \<ge> get_endpoints_count mock_camera
   \<and> get_intrinsics mock_private mock_camera 7 mock_profile =
       (Inl (invalid_value_exception ''Requested subdevice 7 is unsupported.''), mock_camera)
   \<and> get_device_position mock_private mock_camera 7 =
       (Inl (invalid_value_exception ''Requested subdevice 7 is unsupported.''), mock_camera)
   \<and> unat (2 :: 32 word) < get_endpoints_count mock_camera
   \<and> 2 \<noteq> m_depth_device_idx mock_camera \<and> 2 \<noteq> m_fisheye_device_idx mock_camera
   \<and> get_intrinsics mock_private mock_camera 2 mock_profile =
       (Inl (not_implemented_exception ''Not Implemented''), mock_camera)
   \<and> unat (0 :: 32 word) < get_endpoints_count mock_camera
   \<and> 0 \<noteq> m_fisheye_device_idx mock_camera \<and> 0 \<noteq> m_motion_module_device_idx mock_camera
   \<and> get_device_position mock_private mock_camera 0 =
       (Inl (not_implemented_exception ''Not Implemented''), mock_camera)"
  using subdevice_errors [where sub = 7 and c = mock_camera and X = mock_private and p = mock_profile]
    subdevice_errors [where sub = 2 and c = mock_camera and X = mock_private and p = mock_profile]
    subdevice_errors [where sub = 0 and c = mock_camera and X = mock_private and p = mock_profile]
  by (simp add: mock_count mock_idx string_of_nat.simps digit_char_def)

subsection \<open>The pose of the motion module\<close>

lemma mock_fe_pose:
  "fst (get_device_position mock_private mock_camera 1) = Inr (spec_pose_inverse identity_pose)"
  by (simp add: get_device_position_fisheye mock_count mock_idx)
    (simp add: mock_eval fisheye_extrinsics_raw_def force_def
      get_raw_fisheye_extrinsics_table_def send_def command0_def)

lemma mock_ex:
  "motion_module_ex mock_private mock_motion_extrinsics =
     \<lparr>orientation = \<lparr>col_x = float3_of f_0 f_1 f_0, col_y = float3_of f_1 f_0 f_0,
                      col_z = float3_of f_0 f_0 f_1\<rparr>,
      position = float3_of f_1 f_0 f_0\<rparr>"
  by (simp add: motion_module_ex_def mock_eval float3_of_def float3_at_def)

lemma mock_mm_pose:
  "fst (get_device_position mock_private mock_camera 2) =
     Inr (spec_pose_mul (spec_pose_inverse identity_pose)
            (motion_module_ex mock_private mock_motion_extrinsics))"
  apply (simp add: get_device_position_motion_module get_device_position_fisheye mock_count mock_idx)
  apply (simp add: mock_eval fisheye_extrinsics_raw_def motion_module_extrinsics_raw_def force_def
      get_raw_fisheye_extrinsics_table_def get_motion_module_calibration_table_def on_result_def
      send_def command0_def command2_def)
  done

lemma code_value:
  "spec_pose_mul (spec_pose_inverse identity_pose)
            (motion_module_ex mock_private mock_motion_extrinsics) =
     \<lparr>orientation = \<lparr>col_x = float3_of f_0 f_1 f_0, col_y = float3_of f_1 f_0 f_0,
                      col_z = float3_of f_0 f_0 f_1\<rparr>,
      position = float3_of f_1 f_0 f_0\<rparr>"
  unfolding mock_ex by (simp add: pose_eval float_eval)

lemma spec_value:
  "spec_pose_mul (spec_pose_inverse identity_pose) (pose_of_extrinsics mock_motion_extrinsics) =
     \<lparr>orientation = \<lparr>col_x = float3_of f_0 f_1 f_0, col_y = float3_of (fneg f_1) f_0 f_0,
                      col_z = float3_of f_0 f_0 f_1\<rparr>,
      position = float3_of f_1 f_0 f_0\<rparr>"
  by (simp add: mock_eval pose_eval float_eval)

text \<open>
  Claim C9. The pose \<open>ex\<close> that \<open>get_device_position\<close> builds for the motion module takes
  its nine rotation entries in the order \<open>rot(0,0)\<close>, \<open>rot(1,0)\<close>, \<open>rot(2,0)\<close>,
  \<open>rot(1,0)\<close>, \<open>rot(1,1)\<close>, \<open>rot(2,1)\<close>, \<open>rot(0,2)\<close>, \<open>rot(1,2)\<close>, \<open>rot(2,2)\<close>: entry
  \<open>rot(1,0)\<close> stands twice and \<open>rot(0,1)\<close> nowhere, so that \<open>ex\<close> stays the same
  whatever value \<open>v\<close> the access \<open>rot(0,1)\<close> would return. On the mocked device, whose table
  holds a quarter turn about the \<open>z\<close> axis (\<open>rot(1,0) = 1\<close>, \<open>rot(0,1) = -1\<close>), the
  function returns the fisheye pose composed with \<open>ex\<close>, and this is not the pose that
  the composition of the fisheye pose with the table's own pose gives: the second column
  starts with \<open>1\<close> where the table has \<open>-1\<close>.
\<close>

theorem motion_module_pose_entries:
  "orientation (motion_module_ex X E) =
     \<lparr>col_x = float3_of (rot_at X (ex_rotation E) 0 0) (rot_at X (ex_rotation E) 1 0)
                (rot_at X (ex_rotation E) 2 0),
      col_y = float3_of (rot_at X (ex_rotation E) 1 0) (rot_at X (ex_rotation E) 1 1)
                (rot_at X (ex_rotation E) 2 1),
      col_z = float3_of (rot_at X (ex_rotation E) 0 2) (rot_at X (ex_rotation E) 1 2)
                (rot_at X (ex_rotation E) 2 2)\<rparr>
   \<and> motion_module_ex
        (X\<lparr>rot_at := (\<lambda>m i j. if i = 0 \<and> j = 1 then v else rot_at X m i j)\<rparr>) E =
       motion_module_ex X E
   \<and> fst (get_device_position mock_private mock_camera 2) =
       Inr (spec_pose_mul (spec_pose_inverse identity_pose)
              (motion_module_ex mock_private mock_motion_extrinsics))
   \<and> fst (get_device_position mock_private mock_camera 2) =
       Inr \<lparr>orientation = \<lparr>col_x = float3_of f_0 f_1 f_0, col_y = float3_of f_1 f_0 f_0,
                            col_z = float3_of f_0 f_0 f_1\<rparr>,
            position = float3_of f_1 f_0 f_0\<rparr>
   \<and> spec_pose_mul (spec_pose_inverse identity_pose) (pose_of_extrinsics mock_motion_extrinsics) =
       \<lparr>orientation = \<lparr>col_x = float3_of f_0 f_1 f_0, col_y = float3_of (fneg f_1) f_0 f_0,
                        col_z = float3_of f_0 f_0 f_1\<rparr>,
        position = float3_of f_1 f_0 f_0\<rparr>
   \<and> fst (get_device_position mock_private mock_camera 2) \<noteq>
       Inr (spec_pose_mul (spec_pose_inverse identity_pose)
              (pose_of_extrinsics mock_motion_extrinsics))"
proof (intro conjI)
  show "orientation (motion_module_ex X E) =
     \<lparr>col_x = float3_of (rot_at X (ex_rotation E) 0 0) (rot_at X (ex_rotation E) 1 0)
                (rot_at X (ex_rotation E) 2 0),
      col_y = float3_of (rot_at X (ex_rotation E) 1 0) (rot_at X (ex_rotation E) 1 1)
                (rot_at X (ex_rotation E) 2 1),
      col_z = float3_of (rot_at X (ex_rotation E) 0 2) (rot_at X (ex_rotation E) 1 2)
                (rot_at X (ex_rotation E) 2 2)\<rparr>"
    by (simp add: motion_module_ex_def Let_def)
  show "motion_module_ex
        (X\<lparr>rot_at := (\<lambda>m i j. if i = 0 \<and> j = 1 then v else rot_at X m i j)\<rparr>) E =
       motion_module_ex X E"
    by (simp add: motion_module_ex_def Let_def)
  show "fst (get_device_position mock_private mock_camera 2) =
       Inr (spec_pose_mul (spec_pose_inverse identity_pose)
              (motion_module_ex mock_private mock_motion_extrinsics))"
    by (rule mock_mm_pose)
  show "fst (get_device_position mock_private mock_camera 2) =
       Inr \<lparr>orientation = \<lparr>col_x = float3_of f_0 f_1 f_0, col_y = float3_of f_1 f_0 f_0,
                            col_z = float3_of f_0 f_0 f_1\<rparr>,
            position = float3_of f_1 f_0 f_0\<rparr>"
    by (simp only: mock_mm_pose code_value)
  show "spec_pose_mul (spec_pose_inverse identity_pose) (pose_of_extrinsics mock_motion_extrinsics) =
       \<lparr>orientation = \<lparr>col_x = float3_of f_0 f_1 f_0, col_y = float3_of (fneg f_1) f_0 f_0,
                        col_z = float3_of f_0 f_0 f_1\<rparr>,
        position = float3_of f_1 f_0 f_0\<rparr>"
    by (rule spec_value)
  show "fst (get_device_position mock_private mock_camera 2) \<noteq>
       Inr (spec_pose_mul (spec_pose_inverse identity_pose)
              (pose_of_extrinsics mock_motion_extrinsics))"
    by (simp only: mock_mm_pose code_value spec_value) (simp add: float3_of_def f_0_def f_1_def)
qed

subsection \<open>Extrinsics between the left and the right imager\<close>

lemma fneg_round: "fneg (round_binary32 s m e) = round_binary32 (\<not> s) m e"
  by (simp add: round_binary32_def split: option.splits)

lemma fmul_fneg: "fmul (fneg a) b = fneg (fmul a b)"
  by (cases a; cases b) (auto simp: fneg_round)

lemma baseline_l_r:
  assumes "is_left l"
  shows "fst (get_extrinsics X c 0 l 0 RS2_STREAM_INFRARED2) =
      (case coefficients_table_of X c of
         Inl e \<Rightarrow> Inl e
       | Inr t \<Rightarrow> Inr \<lparr>rotation = [f_1, f_0, f_0, f_0, f_1, f_0, f_0, f_0, f_1],
                        translation = [fmul f_0_001 (baseline t), f_0, f_0]\<rparr>)"
proof (cases "coefficients_table_raw X c")
  case (Pair r c')
  then show ?thesis
    using assms
    by (cases r)
      (auto simp: get_extrinsics_def coefficients_table_of_def is_left_def
        identity_extrinsics_def Let_def split: sum.splits)
qed

lemma baseline_r_l:
  assumes "is_left l"
  shows "fst (get_extrinsics X c 0 RS2_STREAM_INFRARED2 0 l) =
      (case coefficients_table_of X c of
         Inl e \<Rightarrow> Inl e
       | Inr t \<Rightarrow> Inr \<lparr>rotation = [f_1, f_0, f_0, f_0, f_1, f_0, f_0, f_0, f_1],
                        translation = [fneg (fmul f_0_001 (baseline t)), f_0, f_0]\<rparr>)"
proof (cases "coefficients_table_raw X c")
  case (Pair r c')
  then show ?thesis
    using assms
    by (cases r)
      (auto simp: get_extrinsics_def coefficients_table_of_def is_left_def
        identity_extrinsics_def Let_def fmul_fneg split: sum.splits)
qed

text \<open>
  Claim C3. Within the depth sub-device (both sub-device numbers 0), for a left stream
  \<open>l\<close> (infrared or depth) and the right stream (infrared 2): \<open>get_extrinsics\<close> fails
  exactly when the coefficients table cannot be read or validated, and otherwise returns
  the identity rotation and a translation whose second and third components are zero.
  Its first component is the float product of \<^verbatim>\<open>0.001f\<close> and the table's baseline from
  left to right, and the exact negation of that product from right to left.
\<close>

theorem baseline_extrinsics:
  assumes "is_left l"
  shows "fst (get_extrinsics X c 0 l 0 RS2_STREAM_INFRARED2) =
      (case coefficients_table_of X c of
         Inl e \<Rightarrow> Inl e
       | Inr t \<Rightarrow> Inr \<lparr>rotation = [f_1, f_0, f_0, f_0, f_1, f_0, f_0, f_0, f_1],
                        translation = [fmul f_0_001 (baseline t), f_0, f_0]\<rparr>)
    \<and> fst (get_extrinsics X c 0 RS2_STREAM_INFRARED2 0 l) =
      (case coefficients_table_of X c of
         Inl e \<Rightarrow> Inl e
       | Inr t \<Rightarrow> Inr \<lparr>rotation = [f_1, f_0, f_0, f_0, f_1, f_0, f_0, f_0, f_1],
                        translation = [fneg (fmul f_0_001 (baseline t)), f_0, f_0]\<rparr>)"
  using baseline_l_r [OF assms, of X c] baseline_r_l [OF assms, of X c] by simp

lemma mock_coefficients_table: "coefficients_table_of mock_private mock_camera = Inr \<lparr>baseline = f_50\<rparr>"
  by (simp add: coefficients_table_of_def coefficients_table_raw_def force_def
      get_raw_calibration_table_def send_def command1_def mock_eval)

lemma fmul_0_001_50: "fmul f_0_001 f_50 = Finite False 13421773 (- 28)"
  by (simp add: float_eval)

theorem baseline_extrinsics_witness:
  "is_left RS2_STREAM_DEPTH
   \<and> fst (get_extrinsics mock_private mock_camera 0 RS2_STREAM_DEPTH 0 RS2_STREAM_INFRARED2) =
       Inr \<lparr>rotation = [f_1, f_0, f_0, f_0, f_1, f_0, f_0, f_0, f_1],
            translation = [Finite False 13421773 (- 28), f_0, f_0]\<rparr>
   \<and> fst (get_extrinsics mock_private mock_camera 0 RS2_STREAM_INFRARED2 0 RS2_STREAM_DEPTH) =
       Inr \<lparr>rotation = [f_1, f_0, f_0, f_0, f_1, f_0, f_0, f_0, f_1],
            translation = [Finite True 13421773 (- 28), f_0, f_0]\<rparr>"
proof -
  have l: "is_left RS2_STREAM_DEPTH" by (simp add: is_left_def)
  show ?thesis
    using l baseline_extrinsics [OF l, of mock_private mock_camera]
    by (simp add: mock_coefficients_table fmul_0_001_50)
qed

subsection \<open>What the constructor leaves on the device\<close>

lemma configure_Nil [simp]: "configure [] x = x"
  by (simp add: configure_def)

lemma configure_Cons [simp]: "configure (s # steps) x = configure steps (s x)"
  by (simp add: configure_def)

lemma configure_append [simp]: "configure (xs @ ys) x = configure ys (configure xs x)"
  by (simp add: configure_def)










lemma ctor_Inr:
  assumes "ds5_camera_ctor X dev_info hid_info hwm = Inr cam"
    and "fst (read_device_state X (pid (hd dev_info)) hwm) = Inr q"
  shows "build_device X dev_info hid_info q (snd (read_device_state X (pid (hd dev_info)) hwm)) = Inr cam"
  using assms
  by (cases "read_device_state X (pid (hd dev_info)) hwm")
    (auto simp: ds5_camera_ctor_def split: if_splits sum.splits)


subsection \<open>The options of the depth and the fisheye endpoint\<close>

lemma supports_option_new [simp]: "supports_option (new_endpoint k) opt = False"
  by (simp add: supports_option_def new_endpoint_def)

lemma supports_option_register_option [simp]:
  "supports_option (register_option k v ep) opt = (opt = k \<or> supports_option ep opt)"
  by (auto simp: supports_option_def register_option_def update_conv')

lemma supports_option_register_pu [simp]:
  "supports_option (register_pu k ep) opt = (opt = k \<or> supports_option ep opt)"
  by (simp add: register_pu_def)

lemma supports_option_other [simp]:
  "supports_option (register_xu u ep) opt = supports_option ep opt"
  "supports_option (register_pixel_format pf ep) opt = supports_option ep opt"
  "supports_option (register_metadata md ep) opt = supports_option ep opt"
  "supports_option (set_roi_method r ep) opt = supports_option ep opt"
  "supports_option (set_pose ps ep) opt = supports_option ep opt"
  by (simp_all add: supports_option_def register_xu_def register_pixel_format_def
      register_metadata_def set_roi_method_def set_pose_def)

lemma supports_option_depth_metadata [simp]:
  "supports_option (configure depth_metadata ep) opt = supports_option ep opt"
  by (simp add: depth_metadata_def)








subsection \<open>Capability gates and topology errors\<close>





lemma build_device_fisheye_count:
  assumes "is_motion_module_pid X (pid (hd dev_info))"
    and "length (filter_by_mi X dev_info 3) \<noteq> 1"
  shows "build_device X dev_info hid_info q h =
     Inl (invalid_value_exception ''RS450 model is expected to include a single fish-eye device!'')"
  using assms by (simp add: build_device_def add_fisheye_and_motion_module_def Let_def)

lemma build_device_color_count:
  assumes "is_rgb_pid X (pid (hd dev_info))"
    and "\<not> is_motion_module_pid X (pid (hd dev_info))"
    and "length (filter_by_mi X dev_info 3) \<noteq> 1"
  shows "build_device X dev_info hid_info q h =
     Inl (invalid_value_exception
            (''RS4XX with RGB models are expected to include a single color device! - ''
             @ string_of_nat (length (filter_by_mi X dev_info 3)) @ '' found''))"
  using assms
  by (simp add: build_device_def add_fisheye_and_motion_module_def add_color_device_def Let_def)

lemma ctor_cases:
  "dev_info \<noteq> [] \<Longrightarrow>
   ds5_camera_ctor X dev_info hid_info hwm =
     (case fst (read_device_state X (pid (hd dev_info)) hwm) of
        Inl e \<Rightarrow> Inl e
      | Inr q \<Rightarrow> build_device X dev_info hid_info q
                   (snd (read_device_state X (pid (hd dev_info)) hwm)))"
  by (cases "read_device_state X (pid (hd dev_info)) hwm")
    (simp add: ds5_camera_ctor_def split: sum.splits)

text \<open>
  Claim C8. For a motion-module product, and for a product with a colour sensor: when
  the device infos filtered by interface 3 are not exactly one, the constructor produces
  no device. Once the hardware reads have succeeded, the exception is the invalid-value
  exception about the single fish-eye device, or (for a colour product that is not a
  motion-module product) the one about the single colour device, which names the count.
\<close>

theorem topology_errors:
  assumes "dev_info \<noteq> []"
  shows "(is_motion_module_pid X (pid (hd dev_info)) \<and> length (filter_by_mi X dev_info 3) \<noteq> 1 \<longrightarrow>
        (\<forall>cam. ds5_camera_ctor X dev_info hid_info hwm \<noteq> Inr cam)
        \<and> (\<forall>q. fst (read_device_state X (pid (hd dev_info)) hwm) = Inr q \<longrightarrow>
              ds5_camera_ctor X dev_info hid_info hwm =
                Inl (invalid_value_exception
                       ''RS450 model is expected to include a single fish-eye device!'')))
    \<and> (is_rgb_pid X (pid (hd dev_info)) \<and> length (filter_by_mi X dev_info 3) \<noteq> 1 \<longrightarrow>
        (\<forall>cam. ds5_camera_ctor X dev_info hid_info hwm \<noteq> Inr cam)
        \<and> (\<forall>q. fst (read_device_state X (pid (hd dev_info)) hwm) = Inr q
                \<and> \<not> is_motion_module_pid X (pid (hd dev_info)) \<longrightarrow>
              ds5_camera_ctor X dev_info hid_info hwm =
                Inl (invalid_value_exception
                       (''RS4XX with RGB models are expected to include a single color device! - ''
                        @ string_of_nat (length (filter_by_mi X dev_info 3)) @ '' found''))))"
proof (intro conjI impI allI)
  assume a: "is_motion_module_pid X (pid (hd dev_info)) \<and> length (filter_by_mi X dev_info 3) \<noteq> 1"
  show "ds5_camera_ctor X dev_info hid_info hwm \<noteq> Inr cam" for cam
    using a build_device_fisheye_count [of X dev_info hid_info]
    by (simp add: ctor_cases [OF assms] split: sum.splits)
  show "ds5_camera_ctor X dev_info hid_info hwm =
                Inl (invalid_value_exception
                       ''RS450 model is expected to include a single fish-eye device!'')"
    if "fst (read_device_state X (pid (hd dev_info)) hwm) = Inr q" for q
    using a that build_device_fisheye_count [of X dev_info hid_info]
    by (simp add: ctor_cases [OF assms])
next
  assume a: "is_rgb_pid X (pid (hd dev_info)) \<and> length (filter_by_mi X dev_info 3) \<noteq> 1"
  show "ds5_camera_ctor X dev_info hid_info hwm \<noteq> Inr cam" for cam
  proof (cases "is_motion_module_pid X (pid (hd dev_info))")
    case True
    then show ?thesis
      using a build_device_fisheye_count [of X dev_info hid_info]
      by (simp add: ctor_cases [OF assms] split: sum.splits)
  next
    case False
    then show ?thesis
      using a build_device_color_count [of X dev_info hid_info]
      by (simp add: ctor_cases [OF assms] split: sum.splits)
  qed
  show "ds5_camera_ctor X dev_info hid_info hwm =
                Inl (invalid_value_exception
                       (''RS4XX with RGB models are expected to include a single color device! - ''
                        @ string_of_nat (length (filter_by_mi X dev_info 3)) @ '' found''))"
    if "fst (read_device_state X (pid (hd dev_info)) hwm) = Inr q
                \<and> \<not> is_motion_module_pid X (pid (hd dev_info))" for q
    using a that build_device_color_count [of X dev_info hid_info]
    by (simp add: ctor_cases [OF assms])
qed



lemmas ctor_eval = ds5_camera_ctor_def read_device_state_def query_gvd_def on_result_def send_def
  command0_def command2_def is_camera_in_advanced_mode_def build_device_def
  add_fisheye_and_motion_module_def add_color_device_def is_motion_module_pid_def is_rgb_pid_def
  create_hid_device_def try_motion_correction_def accel_intrinsics_value_def
  gyro_intrinsics_value_def force_def get_motion_module_calibration_table_def add_endpoint_def
  fw_ge_def firmware_version_of_def mock_private_def mock_channel_def mock_device_info_def
  mock_hid_info_def Let_def






lemma mock_pids:
  "pid (mock_device_info p m) = p" "mi (mock_device_info p m) = m"
  "RS410_PID mock_private = 0x0ad2" "RS430_MM_PID mock_private = 0x0ad5"
  "RS430_PID mock_private = 0x0ad4" "RS420_MM_PID mock_private = 0x0afe"
  "RS415_PID mock_private = 0x0ad3" "RS430_MM_RGB_PID mock_private = 0x0b01"
  "RS435_RGB_PID mock_private = 0x0b07"
  by (simp_all add: mock_device_info_def mock_private_def)




lemma mock_state:
  "\<exists>q. fst (read_device_state mock_private p (mock_channel [5, 6, 3, 0])) = Inr q"
  by (simp add: ctor_eval)

lemma mock_filter:
  "filter_by_mi mock_private [mock_device_info p 0] 3 = []"
  "filter_by_mi mock_private [mock_device_info p 0, mock_device_info p 3, mock_device_info p 3] 3 =
     [mock_device_info p 3, mock_device_info p 3]"
  by (simp_all add: mock_private_def mock_device_info_def)

theorem topology_errors_witness:
  "[mock_device_info 0x0ad5 0] \<noteq> []
   \<and> is_motion_module_pid mock_private (pid (hd [mock_device_info 0x0ad5 0]))
   \<and> length (filter_by_mi mock_private [mock_device_info 0x0ad5 0] 3) \<noteq> 1
   \<and> ds5_camera_ctor mock_private [mock_device_info 0x0ad5 0] [mock_hid_info]
        (mock_channel [5, 6, 3, 0]) =
       Inl (invalid_value_exception ''RS450 model is expected to include a single fish-eye device!'')
   \<and> length (filter_by_mi mock_private
        [mock_device_info 0x0ad5 0, mock_device_info 0x0ad5 3, mock_device_info 0x0ad5 3] 3) \<noteq> 1
   \<and> ds5_camera_ctor mock_private
        [mock_device_info 0x0ad5 0, mock_device_info 0x0ad5 3, mock_device_info 0x0ad5 3]
        [mock_hid_info] (mock_channel [5, 6, 3, 0]) =
       Inl (invalid_value_exception ''RS450 model is expected to include a single fish-eye device!'')
   \<and> is_rgb_pid mock_private (pid (hd [mock_device_info 0x0ad3 0]))
   \<and> \<not> is_motion_module_pid mock_private (pid (hd [mock_device_info 0x0ad3 0]))
   \<and> ds5_camera_ctor mock_private [mock_device_info 0x0ad3 0] [] (mock_channel [5, 6, 3, 0]) =
       Inl (invalid_value_exception
              ''RS4XX with RGB models are expected to include a single color device! - 0 found'')
   \<and> ds5_camera_ctor mock_private
        [mock_device_info 0x0ad3 0, mock_device_info 0x0ad3 3, mock_device_info 0x0ad3 3] []
        (mock_channel [5, 6, 3, 0]) =
       Inl (invalid_value_exception
              ''RS4XX with RGB models are expected to include a single color device! - 2 found'')"
proof -
  obtain q1 where q1: "fst (read_device_state mock_private 0x0ad5 (mock_channel [5, 6, 3, 0])) = Inr q1"
    using mock_state by blast
  obtain q2 where q2: "fst (read_device_state mock_private 0x0ad3 (mock_channel [5, 6, 3, 0])) = Inr q2"
    using mock_state by blast
  have m: "is_motion_module_pid mock_private 0x0ad5" "\<not> is_motion_module_pid mock_private 0x0ad3"
    "is_rgb_pid mock_private 0x0ad3"
    by (simp_all add: is_motion_module_pid_def is_rgb_pid_def mock_pids)
  have n: "[mock_device_info 0x0ad5 0] \<noteq> []"
    "[mock_device_info 0x0ad5 0, mock_device_info 0x0ad5 3, mock_device_info 0x0ad5 3] \<noteq> []"
    "[mock_device_info 0x0ad3 0] \<noteq> []"
    "[mock_device_info 0x0ad3 0, mock_device_info 0x0ad3 3, mock_device_info 0x0ad3 3] \<noteq> []"
    by simp_all
  show ?thesis
    using q1 q2 m
      topology_errors [OF n(1), of mock_private "[mock_hid_info]" "mock_channel [5, 6, 3, 0]"]
      topology_errors [OF n(2), of mock_private "[mock_hid_info]" "mock_channel [5, 6, 3, 0]"]
      topology_errors [OF n(3), of mock_private "[]" "mock_channel [5, 6, 3, 0]"]
      topology_errors [OF n(4), of mock_private "[]" "mock_channel [5, 6, 3, 0]"]
    by (simp add: mock_pids mock_filter string_of_nat.simps digit_char_def)
qed

subsection \<open>The motion-module table is read once for each of its members\<close>

text \<open>
  Claim C5 as stated, with one command per table, fails for the motion-module table. On
  the mocked device, accessing its three members (each of them twice) sends the read of
  the table three times. And the constructor alone, on a motion-module product, sends
  it twice: lines 682 and 683 access the acceleration and the gyroscope intrinsics, and
  each of the two reads the whole table.
\<close>

theorem motion_module_table_read_per_member:
  "sent (m_hw_monitor (dereference_all mock_private
      [motion_module_extrinsics_member, accel_intrinsics_member, gyro_intrinsics_member,
       motion_module_extrinsics_member, accel_intrinsics_member, gyro_intrinsics_member]
      mock_camera)) =
     [command2 MMER 0x134 8, command2 MMER 0x134 8, command2 MMER 0x134 8]
   \<and> table_command mock_private motion_module_raw_table = command2 MMER 0x134 8
   \<and> times_sent (table_command mock_private motion_module_raw_table)
        (m_hw_monitor (dereference_all mock_private
          [motion_module_extrinsics_member, accel_intrinsics_member, gyro_intrinsics_member,
           motion_module_extrinsics_member, accel_intrinsics_member, gyro_intrinsics_member]
          mock_camera)) = 3
   \<and> \<not> times_sent (table_command mock_private motion_module_raw_table)
        (m_hw_monitor (dereference_all mock_private
          [motion_module_extrinsics_member, accel_intrinsics_member, gyro_intrinsics_member,
           motion_module_extrinsics_member, accel_intrinsics_member, gyro_intrinsics_member]
          mock_camera)) \<le> 1
   \<and> \<not> isl (ds5_camera_ctor mock_private [mock_device_info 0x0ad5 0, mock_device_info 0x0ad5 3]
        [mock_hid_info] (mock_channel [5, 6, 3, 0]))
   \<and> sent (m_hw_monitor (projr (ds5_camera_ctor mock_private
        [mock_device_info 0x0ad5 0, mock_device_info 0x0ad5 3]
        [mock_hid_info] (mock_channel [5, 6, 3, 0])))) =
       [command0 GVD, command0 GVD, command0 UAMG, command0 GVD, command0 GVD,
        command2 MMER 0x134 8, command2 MMER 0x134 8]
   \<and> times_sent (table_command mock_private motion_module_raw_table)
        (m_hw_monitor (projr (ds5_camera_ctor mock_private
          [mock_device_info 0x0ad5 0, mock_device_info 0x0ad5 3]
          [mock_hid_info] (mock_channel [5, 6, 3, 0])))) = 2"
proof -
  have s: "sent (m_hw_monitor mock_camera) = []"
    by (simp add: mock_camera_def mock_channel_def)
  have z: "sizeof_imu_calibration_table mock_private = 8"
    by (simp add: mock_private_def)
  have a: "sent (m_hw_monitor (dereference_all mock_private
      [motion_module_extrinsics_member, accel_intrinsics_member, gyro_intrinsics_member,
       motion_module_extrinsics_member, accel_intrinsics_member, gyro_intrinsics_member]
      mock_camera)) =
     [command2 MMER 0x134 8, command2 MMER 0x134 8, command2 MMER 0x134 8]"
    unfolding dereference_all_sent mock_accessed by (simp add: s z)
  have b: "\<not> isl (ds5_camera_ctor mock_private [mock_device_info 0x0ad5 0, mock_device_info 0x0ad5 3]
        [mock_hid_info] (mock_channel [5, 6, 3, 0]))
   \<and> sent (m_hw_monitor (projr (ds5_camera_ctor mock_private
        [mock_device_info 0x0ad5 0, mock_device_info 0x0ad5 3]
        [mock_hid_info] (mock_channel [5, 6, 3, 0])))) =
       [command0 GVD, command0 GVD, command0 UAMG, command0 GVD, command0 GVD,
        command2 MMER 0x134 8, command2 MMER 0x134 8]"
    by (simp add: ctor_eval register_device_info_def register_endpoint_info_def)
  have t: "table_command mock_private motion_module_raw_table = command2 MMER 0x134 8"
    by (simp add: z)
  show ?thesis
    unfolding times_sent_def t using a b
    by (simp add: command0_def command2_def)
qed

end
